theory Spec2Isabelle
  imports Complex_Main
begin

section \<open>Python numerics shared by the audio modules\<close>

text \<open>
  Onset times, periods and grid positions are Python floats that are always finite in the
  modules below; they are modelled as real numbers, so rounding error of binary floating
  point is not part of the model. Exceptions are values of the type \<open>error\<close>; a call that
  raises returns \<open>Inl\<close> of it.
\<close>

datatype error = ZeroDivisionError | LinAlgError | TypeError | IndexError | KeyError | ValueError

text \<open>Python's built-in \<open>round(x)\<close> on a float: to the nearest integer, ties to the even one.\<close>

definition py_round :: "real \<Rightarrow> int" where
  "py_round x =
     (let f = \<lfloor>x\<rfloor>; d = x - of_int f
      in if d < 1 / 2 then f else if 1 / 2 < d then f + 1
         else if even f then f else f + 1)"

text \<open>\<open>round(x, ndigits)\<close>: the same rule at the given decimal place.\<close>

definition py_round_n :: "real \<Rightarrow> nat \<Rightarrow> real" where
  "py_round_n x ndigits = of_int (py_round (x * 10 ^ ndigits)) / 10 ^ ndigits"

text \<open>
  \<open>np.linalg.lstsq(A, times, rcond=None)\<close> for the two-column matrix
  \<open>A = [indices, ones]\<close>: the least-squares line \<open>time = reference + index * period\<close>,
  returned as \<open>(period, reference)\<close>. When all indices are equal the matrix has rank one and
  numpy returns the solution of least Euclidean norm.
\<close>

definition lstsq_line :: "real list \<Rightarrow> real list \<Rightarrow> real \<times> real" where
  "lstsq_line xs ys =
     (let n = real (length xs);
          sx = sum_list xs;
          sy = sum_list ys;
          sxx = sum_list (map (\<lambda>x. x * x) xs);
          sxy = sum_list (map (\<lambda>(x, y). x * y) (zip xs ys));
          d = n * sxx - sx * sx
      in if d \<noteq> 0
         then (let a = (n * sxy - sx * sy) / d in (a, (sy - a * sx) / n))
         else (let k = sx / n; m = sy / n
               in (m * k / (k * k + 1), m / (k * k + 1))))"

section \<open>metronome\_detector.py\<close>

record MetronomeDetector =
  onset_times :: "real list"
  locked :: bool
  bpm :: "real option"
  period :: "real option"
  reference_time :: "real option"
  click_times :: "real list"
  click_indices :: "int list"
  clicks_since_refit :: int
  best_periodic_count :: int

definition MIN_PERIODIC_ONSETS :: nat where "MIN_PERIODIC_ONSETS = 4"
definition TOLERANCE_S :: real where "TOLERANCE_S = 25 / 1000"
definition MIN_PERIOD_S :: real where "MIN_PERIOD_S = 25 / 100"
definition MAX_PERIOD_S :: real where "MAX_PERIOD_S = 15 / 10"
definition WINDOW_S :: real where "WINDOW_S = 6"
definition REFIT_INTERVAL :: int where "REFIT_INTERVAL = 4"

text \<open>\<open>MetronomeDetector.__init__\<close>\<close>

definition md_init :: MetronomeDetector where
  "md_init = \<lparr> onset_times = [], locked = False, bpm = None, period = None,
               reference_time = None, click_times = [], click_indices = [],
               clicks_since_refit = 0, best_periodic_count = 0 \<rparr>"

text \<open>
  \<open>_refit\<close>. \<open>np.vstack\<close> builds one row per click index, and \<open>lstsq\<close> raises
  \<open>LinAlgError\<close> when the number of click times differs from it.
\<close>

definition refit :: "MetronomeDetector \<Rightarrow> error + MetronomeDetector" where
  "refit s =
     (if length (click_times s) < 2 then Inr s
      else if length (click_indices s) \<noteq> length (click_times s) then Inl LinAlgError
      else (case lstsq_line (map real_of_int (click_indices s)) (click_times s) of
              (new_period, new_reference) \<Rightarrow>
                if MIN_PERIOD_S \<le> new_period \<and> new_period \<le> MAX_PERIOD_S
                then Inr (s\<lparr> period := Some new_period,
                            reference_time := Some new_reference,
                            bpm := Some (60 / new_period) \<rparr>)
                else Inr s))"

text \<open>\<open>_compute_click_indices\<close>; the approximate period is never zero where it is called.\<close>

definition compute_click_indices :: "MetronomeDetector \<Rightarrow> real \<Rightarrow> MetronomeDetector" where
  "compute_click_indices s approx_period =
     (case click_times s of
        [] \<Rightarrow> s
      | base # _ \<Rightarrow>
          s\<lparr> click_indices := map (\<lambda>t. py_round ((t - base) / approx_period)) (click_times s) \<rparr>)"

text \<open>
  The periodicity search of \<open>_try_lock\<close>. The pair \<open>(best_period, best_aligned)\<close> is the
  loop state; \<open>aligned_onsets\<close> is the innermost loop over the window, \<open>try_divisor\<close> the
  body of the loop over the divisors, \<open>try_pair\<close> the body of the loop over \<open>j\<close>, and
  \<open>search_from\<close> the loop over \<open>i\<close> with its early \<open>break\<close>.
\<close>

definition aligned_onsets :: "real list \<Rightarrow> real \<Rightarrow> real \<Rightarrow> real list" where
  "aligned_onsets tms ti p =
     filter (\<lambda>t. let offset = (t - ti) / p; nearest_int = py_round offset
                 in \<bar>offset - of_int nearest_int\<bar> * p \<le> TOLERANCE_S) tms"

definition try_divisor ::
  "real list \<Rightarrow> nat \<Rightarrow> nat \<Rightarrow> int \<Rightarrow> real option \<times> real list \<Rightarrow> real option \<times> real list" where
  "try_divisor tms i j divisor best =
     (let raw_interval = tms ! j - tms ! i;
          p = raw_interval / of_int divisor
      in if p < MIN_PERIOD_S \<or> p > MAX_PERIOD_S then best
         else (let aligned = aligned_onsets tms (tms ! i) p
               in if length aligned > length (snd best) then (Some p, aligned) else best))"

definition try_pair ::
  "real list \<Rightarrow> nat \<Rightarrow> nat \<Rightarrow> real option \<times> real list \<Rightarrow> real option \<times> real list" where
  "try_pair tms i j best = fold (try_divisor tms i j) [1, 2, 3, 4] best"

fun search_from ::
  "real list \<Rightarrow> nat list \<Rightarrow> real option \<times> real list \<Rightarrow> real option \<times> real list" where
  "search_from tms [] best = best"
| "search_from tms (i # rest) best =
     (let best' = fold (try_pair tms i) [Suc i ..< length tms] best
      in if length (snd best') \<ge> 6 then best' else search_from tms rest best')"

text \<open>
  \<open>_try_lock\<close>. The log line after locking formats \<open>bpm\<close>, \<open>period\<close> and
  \<open>reference_time\<close> as floats and raises \<open>TypeError\<close> when one of them is still \<open>None\<close>,
  which is the case when the first refit rejected its fitted period.
\<close>

definition try_lock :: "MetronomeDetector \<Rightarrow> error + (bool \<times> MetronomeDetector)" where
  "try_lock s =
     (if onset_times s = [] then Inl IndexError
      else
       (let cutoff = last (onset_times s) - WINDOW_S;
            tms = filter (\<lambda>t. t \<ge> cutoff) (onset_times s)
        in if length tms < MIN_PERIODIC_ONSETS then Inr (False, s)
           else
            (case search_from tms [0 ..< length tms] (None, []) of
               (best_period, best_aligned) \<Rightarrow>
                 (let s1 = s\<lparr> best_periodic_count := int (length best_aligned) \<rparr>
                  in case best_period of
                       None \<Rightarrow> Inr (False, s1)
                     | Some bp \<Rightarrow>
                         if length best_aligned \<ge> MIN_PERIODIC_ONSETS
                         then (let s2 = s1\<lparr> click_times := sort best_aligned \<rparr>;
                                   s3 = compute_click_indices s2 bp
                               in case refit s3 of
                                    Inl e \<Rightarrow> Inl e
                                  | Inr s4 \<Rightarrow>
                                      (let s5 = s4\<lparr> locked := True \<rparr>
                                       in if bpm s5 = None \<or> period s5 = None
                                             \<or> reference_time s5 = None
                                          then Inl TypeError
                                          else Inr (True, s5)))
                         else Inr (False, s1)))))"

text \<open>\<open>add_onset\<close>\<close>

definition add_onset :: "MetronomeDetector \<Rightarrow> real \<Rightarrow> error + (bool \<times> MetronomeDetector)" where
  "add_onset s time_seconds =
     (let s1 = s\<lparr> onset_times := onset_times s @ [time_seconds] \<rparr>
      in if locked s1 then Inr (False, s1)
         else if length (onset_times s1) < MIN_PERIODIC_ONSETS then Inr (False, s1)
         else try_lock s1)"

text \<open>\<open>track_onset\<close>; the division by \<open>self.period\<close> raises when the period is zero.\<close>

definition track_onset :: "MetronomeDetector \<Rightarrow> real \<Rightarrow> error + (bool \<times> MetronomeDetector)" where
  "track_onset s onset_time =
     (case (locked s, period s, reference_time s) of
        (True, Some p, Some r) \<Rightarrow>
          if p = 0 then Inl ZeroDivisionError
          else
           (let offset = (onset_time - r) / p;
                nearest_int = py_round offset;
                error_ms = \<bar>offset - of_int nearest_int\<bar> * p * 1000;
                track_tolerance_ms = min (p * 250) 50
            in if error_ms > track_tolerance_ms then Inr (False, s)
               else if click_times s \<noteq> [] \<and> onset_time - last (click_times s) < p * (1 / 2)
               then Inr (False, s)
               else
                (let s1 = s\<lparr> click_times := click_times s @ [onset_time],
                              click_indices := click_indices s @ [nearest_int],
                              clicks_since_refit := clicks_since_refit s + 1 \<rparr>
                 in if clicks_since_refit s1 \<ge> REFIT_INTERVAL
                    then (case refit (s1\<lparr> clicks_since_refit := 0 \<rparr>) of
                            Inl e \<Rightarrow> Inl e
                          | Inr s2 \<Rightarrow> Inr (True, s2))
                    else Inr (True, s1)))
      | _ \<Rightarrow> Inr (False, s))"

text \<open>The properties \<open>total_onsets\<close>, \<open>click_count\<close> and \<open>grid_updated\<close>.\<close>

definition total_onsets :: "MetronomeDetector \<Rightarrow> int" where
  "total_onsets s = int (length (onset_times s))"

definition click_count :: "MetronomeDetector \<Rightarrow> int" where
  "click_count s = (if locked s then int (length (click_times s)) else best_periodic_count s)"

definition grid_updated :: "MetronomeDetector \<Rightarrow> bool" where
  "grid_updated s \<longleftrightarrow>
     clicks_since_refit s = 0 \<and> length (click_times s) > MIN_PERIODIC_ONSETS"

text \<open>Feeding a list of onsets to \<open>add_onset\<close> one after the other, keeping the last result.\<close>

fun add_onsets ::
  "MetronomeDetector \<Rightarrow> real list \<Rightarrow> error + (bool \<times> MetronomeDetector)" where
  "add_onsets s [] = Inr (False, s)"
| "add_onsets s [t] = add_onset s t"
| "add_onsets s (t # ts) =
     (case add_onset s t of Inl e \<Rightarrow> Inl e | Inr (_, s') \<Rightarrow> add_onsets s' ts)"

text \<open>
  An exception leaves the detector object as it was mutated up to the raise. The two
  definitions below follow \<open>_try_lock\<close> and \<open>add_onset\<close> statement by statement once more
  and return, next to the result or the exception, the object as the call leaves it; a call
  of \<open>_refit\<close> that raises has assigned nothing. On the calls that return they agree with
  \<open>try_lock\<close> and \<open>add_onset\<close>.
\<close>

definition try_lock_outcome :: "MetronomeDetector \<Rightarrow> (error + bool) \<times> MetronomeDetector" where
  "try_lock_outcome s =
     (if onset_times s = [] then (Inl IndexError, s)
      else
       (let cutoff = last (onset_times s) - WINDOW_S;
            tms = filter (\<lambda>t. t \<ge> cutoff) (onset_times s)
        in if length tms < MIN_PERIODIC_ONSETS then (Inr False, s)
           else
            (case search_from tms [0 ..< length tms] (None, []) of
               (best_period, best_aligned) \<Rightarrow>
                 (let s1 = s\<lparr> best_periodic_count := int (length best_aligned) \<rparr>
                  in case best_period of
                       None \<Rightarrow> (Inr False, s1)
                     | Some bp \<Rightarrow>
                         if length best_aligned \<ge> MIN_PERIODIC_ONSETS
                         then (let s2 = s1\<lparr> click_times := sort best_aligned \<rparr>;
                                   s3 = compute_click_indices s2 bp
                               in case refit s3 of
                                    Inl e \<Rightarrow> (Inl e, s3)
                                  | Inr s4 \<Rightarrow>
                                      (let s5 = s4\<lparr> locked := True \<rparr>
                                       in if bpm s5 = None \<or> period s5 = None
                                             \<or> reference_time s5 = None
                                          then (Inl TypeError, s5)
                                          else (Inr True, s5)))
                         else (Inr False, s1)))))"

definition add_onset_outcome ::
  "MetronomeDetector \<Rightarrow> real \<Rightarrow> (error + bool) \<times> MetronomeDetector" where
  "add_onset_outcome s time_seconds =
     (let s1 = s\<lparr> onset_times := onset_times s @ [time_seconds] \<rparr>
      in if locked s1 then (Inr False, s1)
         else if length (onset_times s1) < MIN_PERIODIC_ONSETS then (Inr False, s1)
         else try_lock_outcome s1)"

text \<open>
  The detector that the fourth of the onsets 0 s, 0.25 s, 0.5 s and 0.74 s leaves behind.
\<close>

definition stuck_example :: MetronomeDetector where
  "stuck_example =
     \<lparr> onset_times = [0, 1 / 4, 1 / 2, 74 / 100], locked = True, bpm = None,
       period = None, reference_time = None,
       click_times = [0, 1 / 4, 1 / 2, 74 / 100], click_indices = [0, 1, 2, 3],
       clicks_since_refit = 0, best_periodic_count = 4 \<rparr>"

text \<open>
  The invariant of a locked detector: the period lies in the accepted range, the click times
  ascend, and every click has its index.
\<close>

definition locked_inv :: "MetronomeDetector \<Rightarrow> bool" where
  "locked_inv s \<longleftrightarrow>
     locked s
     \<and> (case period s of None \<Rightarrow> False | Some p \<Rightarrow> 1 / 4 \<le> p \<and> p \<le> 3 / 2)
     \<and> sorted (click_times s)
     \<and> length (click_times s) = length (click_indices s)"

text \<open>Two locked detectors used as concrete inputs; the second is one click short of a refit.\<close>

definition locked_example :: MetronomeDetector where
  "locked_example =
     \<lparr> onset_times = [1 / 2, 1, 3 / 2, 2], locked = True, bpm = Some 120,
       period = Some (1 / 2), reference_time = Some (1 / 2),
       click_times = [1 / 2, 1, 3 / 2, 2], click_indices = [0, 1, 2, 3],
       clicks_since_refit = 0, best_periodic_count = 4 \<rparr>"

definition refit_due_example :: MetronomeDetector where
  "refit_due_example =
     \<lparr> onset_times = [0, 1 / 2, 1, 3 / 2], locked = True, bpm = Some 120,
       period = Some (1 / 2), reference_time = Some 0,
       click_times = [0, 1 / 2, 1, 3 / 2], click_indices = [0, 1, 2, 3],
       clicks_since_refit = 3, best_periodic_count = 4 \<rparr>"

section \<open>pipeline.py: the post-lock decision of \<open>process_audio\<close>\<close>



section \<open>grid\_aligner.py\<close>

record GridConfig =
  grid_bpm :: real
  grid_resolution :: string
  grid_reference_time :: real

text \<open>The properties \<open>beat_duration\<close> and \<open>grid_interval\<close>; \<open>60.0 / self.bpm\<close> raises at 0.\<close>

definition beat_duration :: "GridConfig \<Rightarrow> error + real" where
  "beat_duration c = (if grid_bpm c = 0 then Inl ZeroDivisionError else Inr (60 / grid_bpm c))"

definition grid_interval :: "GridConfig \<Rightarrow> error + real" where
  "grid_interval c =
     (case beat_duration c of
        Inl e \<Rightarrow> Inl e
      | Inr b \<Rightarrow> if grid_resolution c = ''16th'' then Inr (b / 4) else Inr (b / 2))"

text \<open>
  \<open>compute_deviation\<close> returns \<open>(deviation_ms, nearest_grid_time, bar, beat_position)\<close>.
  \<open>grid_index\<close> is a Python \<open>int\<close>, so \<open>//\<close> and \<open>%\<close> are floor division and its remainder,
  which is what \<open>div\<close> and \<open>mod\<close> are on \<open>int\<close>.
\<close>

definition compute_deviation :: "GridConfig \<Rightarrow> real \<Rightarrow> error + (real \<times> real \<times> int \<times> real)" where
  "compute_deviation c onset_time =
     (case grid_interval c of
        Inl e \<Rightarrow> Inl e
      | Inr gi \<Rightarrow>
          if gi = 0 then Inl ZeroDivisionError
          else
           (let relative = onset_time - grid_reference_time c;
                grid_index = py_round (relative / gi);
                nearest_grid_time = grid_reference_time c + of_int grid_index * gi;
                deviation_ms = (onset_time - nearest_grid_time) * 1000;
                subdivisions_per_beat = (if grid_resolution c = ''16th'' then 4 else 2 :: int);
                subdivisions_per_bar = 4 * subdivisions_per_beat;
                bar = grid_index div subdivisions_per_bar + 1;
                position_in_bar = grid_index mod subdivisions_per_bar;
                beat_position = 1 + of_int position_in_bar / of_int subdivisions_per_beat
            in Inr (py_round_n deviation_ms 1, nearest_grid_time, bar,
                    py_round_n beat_position 2)))"

section \<open>onset\_detector.py\<close>

text \<open>
  Audio samples arrive as raw 32-bit floats and may be NaN or infinite, and the energy
  estimates computed from them may be so too. These values are modelled by \<open>pyfloat\<close>: a
  real number (rounding and overflow of finite values are not modelled), the two infinities,
  or NaN, with the IEEE 754 rules for the operations the detector uses: NaN is absorbing,
  \<open>inf - inf\<close> and \<open>0 * inf\<close> are NaN, and every comparison with NaN is false.
\<close>

datatype pyfloat = Fin real | PInf | NInf | NaN

fun fadd :: "pyfloat \<Rightarrow> pyfloat \<Rightarrow> pyfloat" where
  "fadd NaN _ = NaN"
| "fadd _ NaN = NaN"
| "fadd (Fin a) (Fin b) = Fin (a + b)"
| "fadd (Fin a) PInf = PInf"
| "fadd (Fin a) NInf = NInf"
| "fadd PInf (Fin b) = PInf"
| "fadd NInf (Fin b) = NInf"
| "fadd PInf PInf = PInf"
| "fadd NInf NInf = NInf"
| "fadd PInf NInf = NaN"
| "fadd NInf PInf = NaN"

fun fmul :: "pyfloat \<Rightarrow> pyfloat \<Rightarrow> pyfloat" where
  "fmul NaN _ = NaN"
| "fmul _ NaN = NaN"
| "fmul (Fin a) (Fin b) = Fin (a * b)"
| "fmul (Fin a) PInf = (if 0 < a then PInf else if a < 0 then NInf else NaN)"
| "fmul (Fin a) NInf = (if 0 < a then NInf else if a < 0 then PInf else NaN)"
| "fmul PInf (Fin b) = (if 0 < b then PInf else if b < 0 then NInf else NaN)"
| "fmul NInf (Fin b) = (if 0 < b then NInf else if b < 0 then PInf else NaN)"
| "fmul PInf PInf = PInf"
| "fmul NInf NInf = PInf"
| "fmul PInf NInf = NInf"
| "fmul NInf PInf = NInf"

text \<open>\<open>a > b\<close> and \<open>a < b\<close> on floats.\<close>

fun fgt :: "pyfloat \<Rightarrow> pyfloat \<Rightarrow> bool" where
  "fgt (Fin a) (Fin b) = (a > b)"
| "fgt PInf (Fin b) = True"
| "fgt PInf NInf = True"
| "fgt (Fin a) NInf = True"
| "fgt _ _ = False"

definition flt :: "pyfloat \<Rightarrow> pyfloat \<Rightarrow> bool" where
  "flt a b = fgt b a"

fun fsqrt :: "pyfloat \<Rightarrow> pyfloat" where
  "fsqrt (Fin a) = (if a < 0 then NaN else Fin (sqrt a))"
| "fsqrt PInf = PInf"
| "fsqrt NInf = NaN"
| "fsqrt NaN = NaN"

definition is_finite :: "pyfloat \<Rightarrow> bool" where
  "is_finite x = (case x of Fin _ \<Rightarrow> True | _ \<Rightarrow> False)"

text \<open>Python's \<open>max(a, b)\<close> keeps \<open>a\<close> unless \<open>b > a\<close>.\<close>

definition py_max :: "pyfloat \<Rightarrow> pyfloat \<Rightarrow> pyfloat" where
  "py_max a b = (if fgt b a then b else a)"

text \<open>\<open>np.sum\<close> and \<open>np.mean\<close> of an array; the mean of an empty array is NaN.\<close>

fun np_sum :: "pyfloat list \<Rightarrow> pyfloat" where
  "np_sum [] = Fin 0"
| "np_sum (x # xs) = fadd x (np_sum xs)"

definition np_mean :: "pyfloat list \<Rightarrow> pyfloat" where
  "np_mean xs =
     (if xs = [] then NaN
      else (case np_sum xs of Fin s \<Rightarrow> Fin (s / real (length xs)) | v \<Rightarrow> v))"

text \<open>\<open>float(np.sqrt(np.mean(frame**2)))\<close>\<close>

definition frame_rms :: "pyfloat list \<Rightarrow> pyfloat" where
  "frame_rms frame = fsqrt (np_mean (map (\<lambda>x. fmul x x) frame))"

record RealtimeOnsetDetector =
  sample_rate :: int
  min_interval_seconds :: real
  last_onset_time :: "real option"
  total_samples :: int
  smoothed_rms :: pyfloat
  mean_rms :: pyfloat
  above_threshold :: bool
  peak_rms :: pyfloat
  frame_count :: int

text \<open>The tuning attributes that \<open>__init__\<close> sets and nothing changes.\<close>

definition alpha_smooth :: real where "alpha_smooth = 3 / 10"
definition alpha_mean_rise :: real where "alpha_mean_rise = 1 / 100"
definition alpha_mean_fall :: real where "alpha_mean_fall = 5 / 100"
definition threshold_ratio :: real where "threshold_ratio = 15 / 10"
definition min_threshold :: real where "min_threshold = 1 / 1000"
definition hysteresis_ratio :: real where "hysteresis_ratio = 4 / 10"
definition log_interval :: int where "log_interval = 200"
definition frame_size :: nat where "frame_size = 512"
definition hop_size :: nat where "hop_size = 256"

text \<open>\<open>RealtimeOnsetDetector.__init__\<close>\<close>

definition detector_init :: "int \<Rightarrow> real \<Rightarrow> RealtimeOnsetDetector" where
  "detector_init rate min_interval =
     \<lparr> sample_rate = rate, min_interval_seconds = min_interval, last_onset_time = None,
       total_samples = 0, smoothed_rms = Fin 0, mean_rms = Fin 0, above_threshold = False,
       peak_rms = Fin 0, frame_count = 0 \<rparr>"

text \<open>
  The body of the loop of \<open>process_chunk\<close> for the frame that starts at offset \<open>i\<close> of the
  chunk, in three parts. \<open>detect_edge\<close> is the statement
  \<open>if self.smoothed_rms > threshold: ... else: ...\<close> on the onsets collected so far and the
  detector, \<open>update_baseline\<close> the update of \<open>mean_rms\<close>, and \<open>process_frame\<close> the whole
  body. The two divisions by \<open>self.sample_rate\<close> (the onset time, and the time in the log
  line printed every 200th frame) raise when the sample rate is 0.
\<close>

definition detect_edge ::
  "nat \<Rightarrow> pyfloat \<Rightarrow> real list \<times> RealtimeOnsetDetector
     \<Rightarrow> error + (real list \<times> RealtimeOnsetDetector)" where
  "detect_edge i threshold acc =
     (case acc of (onsets, s) \<Rightarrow>
        if fgt (smoothed_rms s) threshold
        then (if \<not> above_threshold s
              then (if sample_rate s = 0 then Inl ZeroDivisionError
                    else (let onset_time = real_of_int (total_samples s + int i)
                                           / real_of_int (sample_rate s)
                          in if (case last_onset_time s of
                                   None \<Rightarrow> True
                                 | Some l \<Rightarrow> onset_time - l \<ge> min_interval_seconds s)
                             then Inr (onsets @ [onset_time],
                                       s\<lparr> above_threshold := True,
                                          last_onset_time := Some onset_time \<rparr>)
                             else Inr (onsets, s\<lparr> above_threshold := True \<rparr>)))
              else Inr (onsets, s))
        else (if flt (smoothed_rms s) (fmul threshold (Fin hysteresis_ratio))
              then Inr (onsets, s\<lparr> above_threshold := False \<rparr>)
              else Inr (onsets, s)))"

definition update_baseline :: "pyfloat \<Rightarrow> RealtimeOnsetDetector \<Rightarrow> RealtimeOnsetDetector" where
  "update_baseline rms s =
     (let alpha = (if fgt rms (mean_rms s) then alpha_mean_rise else alpha_mean_fall)
      in s\<lparr> mean_rms := fadd (fmul (Fin alpha) rms) (fmul (Fin (1 - alpha)) (mean_rms s)) \<rparr>)"

definition process_frame ::
  "pyfloat list \<Rightarrow> nat \<Rightarrow> real list \<times> RealtimeOnsetDetector
     \<Rightarrow> error + (real list \<times> RealtimeOnsetDetector)" where
  "process_frame audio_chunk i acc =
     (case acc of (onsets, s) \<Rightarrow>
       (let frame = take frame_size (drop i audio_chunk);
            rms = frame_rms frame;
            smoothed = fadd (fmul (Fin alpha_smooth) rms)
                            (fmul (Fin (1 - alpha_smooth)) (smoothed_rms s));
            threshold = py_max (Fin min_threshold) (fmul (mean_rms s) (Fin threshold_ratio));
            s1 = s\<lparr> smoothed_rms := smoothed,
                    peak_rms := (if fgt rms (peak_rms s) then rms else peak_rms s) \<rparr>
        in case detect_edge i threshold (onsets, s1) of
             Inl e \<Rightarrow> Inl e
           | Inr (onsets', s2) \<Rightarrow>
               (let s3 = (update_baseline rms s2)\<lparr> frame_count := frame_count s2 + 1 \<rparr>
                in if frame_count s3 mod log_interval = 0 \<and> sample_rate s3 = 0
                   then Inl ZeroDivisionError
                   else Inr (onsets', s3))))"

text \<open>
  The frame offsets \<open>range(0, len(audio_chunk) - frame_size + 1, hop_size)\<close>: none for a
  chunk shorter than a frame.
\<close>

definition frame_count_of :: "nat \<Rightarrow> nat" where
  "frame_count_of n = (if n < frame_size then 0 else (n - frame_size) div hop_size + 1)"

definition frame_starts :: "nat \<Rightarrow> nat list" where
  "frame_starts n = map (\<lambda>k. hop_size * k) [0 ..< frame_count_of n]"

fun run_frames ::
  "pyfloat list \<Rightarrow> nat list \<Rightarrow> real list \<times> RealtimeOnsetDetector
     \<Rightarrow> error + (real list \<times> RealtimeOnsetDetector)" where
  "run_frames audio_chunk [] acc = Inr acc"
| "run_frames audio_chunk (i # rest) acc =
     (case process_frame audio_chunk i acc of
        Inl e \<Rightarrow> Inl e
      | Inr acc' \<Rightarrow> run_frames audio_chunk rest acc')"

text \<open>\<open>process_chunk\<close>: the onsets of the chunk and the detector after it.\<close>

definition process_chunk ::
  "RealtimeOnsetDetector \<Rightarrow> pyfloat list \<Rightarrow> error + (real list \<times> RealtimeOnsetDetector)" where
  "process_chunk s audio_chunk =
     (case run_frames audio_chunk (frame_starts (length audio_chunk)) ([], s) of
        Inl e \<Rightarrow> Inl e
      | Inr (onsets, s') \<Rightarrow>
          Inr (onsets, s'\<lparr> total_samples := total_samples s' + int (length audio_chunk) \<rparr>))"

text \<open>Feeding chunks one at a time and concatenating the onsets returned.\<close>

fun process_chunks ::
  "RealtimeOnsetDetector \<Rightarrow> pyfloat list list
     \<Rightarrow> error + (real list \<times> RealtimeOnsetDetector)" where
  "process_chunks s [] = Inr ([], s)"
| "process_chunks s (c # cs) =
     (case process_chunk s c of
        Inl e \<Rightarrow> Inl e
      | Inr (onsets, s') \<Rightarrow>
          (case process_chunks s' cs of
             Inl e \<Rightarrow> Inl e
           | Inr (onsets', s'') \<Rightarrow> Inr (onsets @ onsets', s'')))"

text \<open>A chunk with its non-finite samples replaced by zero.\<close>

definition zero_nonfinite :: "pyfloat list \<Rightarrow> pyfloat list" where
  "zero_nonfinite audio_chunk = map (\<lambda>x. if is_finite x then x else Fin 0) audio_chunk"

text \<open>The onsets of a result, or its exception.\<close>

definition onsets_of :: "error + (real list \<times> RealtimeOnsetDetector) \<Rightarrow> error + real list" where
  "onsets_of res = (case res of Inl e \<Rightarrow> Inl e | Inr (onsets, _) \<Rightarrow> Inr onsets)"

text \<open>
  The initial detector at 44100 Hz after one frame of NaN samples, and after one frame of
  zeros.
\<close>

definition poisoned_example :: RealtimeOnsetDetector where
  "poisoned_example =
     (detector_init 44100 (1 / 20))\<lparr> smoothed_rms := NaN, mean_rms := NaN, frame_count := 1,
                                     total_samples := 512 \<rparr>"

definition silent_example :: RealtimeOnsetDetector where
  "silent_example =
     (detector_init 44100 (1 / 20))\<lparr> frame_count := 1, total_samples := 512 \<rparr>"

section \<open>calibration.py\<close>

text \<open>
  The classifier is modelled on finite samples, as real numbers. A stored profile is a
  dictionary; the keys the code knows are fields that may be absent, and the empty dictionary
  (which Python's \<open>not\<close> treats like \<open>None\<close>) has none of them. The two librosa routines,
  which are not part of this repository, are parameters: \<open>mfcc\<close> maps a window and the sample
  rate to the 13 MFCCs averaged over the frames of the window, \<open>centroid\<close> to the mean
  spectral centroid.
\<close>

record profile =
  mfcc_mean :: "real list option"
  spectral_centroid :: "real option"
  energy_decay :: "real option"
  onset_count :: "int option"

record calibration =
  metronome :: "profile option"
  guitar :: "profile option"

record features =
  feat_mfcc :: "real list"
  feat_spectral_centroid :: real
  feat_energy_decay :: real

definition WINDOW_SAMPLES :: int where "WINDOW_SAMPLES = 2048"

definition empty_profile :: profile where
  "empty_profile = \<lparr> mfcc_mean = None, spectral_centroid = None, energy_decay = None,
                     onset_count = None \<rparr>"

text \<open>The zero-valued profile that \<open>extract_profile\<close> returns when no onset survives.\<close>

definition zero_profile :: profile where
  "zero_profile = \<lparr> mfcc_mean = Some (replicate 13 0), spectral_centroid = Some 0,
                    energy_decay = Some 0, onset_count = Some 0 \<rparr>"

text \<open>\<open>not p\<close> for a value that is \<open>None\<close> or a dictionary.\<close>

definition py_not :: "profile option \<Rightarrow> bool" where
  "py_not p \<longleftrightarrow> p = None \<or> p = Some empty_profile"

text \<open>\<open>np.max(np.abs(window))\<close> of a non-empty window, \<open>np.linalg.norm\<close> and \<open>np.dot\<close>.\<close>

definition np_max_abs :: "real list \<Rightarrow> real" where
  "np_max_abs window = foldr max (map abs window) 0"

definition np_norm :: "real list \<Rightarrow> real" where
  "np_norm a = sqrt (sum_list (map (\<lambda>x. x * x) a))"

definition np_dot :: "real list \<Rightarrow> real list \<Rightarrow> real" where
  "np_dot a b = sum_list (map (\<lambda>(x, y). x * y) (zip a b))"

text \<open>\<open>_extract_window_features\<close>; \<open>np.max\<close> raises \<open>ValueError\<close> on an empty window.\<close>

definition extract_window_features ::
  "(real list \<Rightarrow> int \<Rightarrow> real list) \<Rightarrow> (real list \<Rightarrow> int \<Rightarrow> real)
     \<Rightarrow> real list \<Rightarrow> int \<Rightarrow> error + features option" where
  "extract_window_features mfcc centroid window rate =
     (if window = [] then Inl ValueError
      else if np_max_abs window < 1 / 10 ^ 6 then Inr None
      else
       (let mid = length window div 2;
            first_energy = sum_list (map (\<lambda>x. x * x) (take mid window));
            second_energy = sum_list (map (\<lambda>x. x * x) (drop mid window));
            decay = (if first_energy > 1 / 10 ^ 10 then second_energy / first_energy else 1)
        in Inr (Some \<lparr> feat_mfcc = mfcc window rate,
                       feat_spectral_centroid = centroid window rate,
                       feat_energy_decay = decay \<rparr>)))"

text \<open>\<open>_cosine_similarity\<close>; \<open>np.dot\<close> raises \<open>ValueError\<close> on vectors of different lengths.\<close>

definition cosine_similarity :: "real list \<Rightarrow> real list \<Rightarrow> error + real" where
  "cosine_similarity a b =
     (let norm_a = np_norm a; norm_b = np_norm b
      in if norm_a < 1 / 10 ^ 10 \<or> norm_b < 1 / 10 ^ 10 then Inr 0
         else if length a \<noteq> length b then Inl ValueError
         else Inr (np_dot a b / (norm_a * norm_b)))"

text \<open>\<open>classify_onset\<close>; \<open>met_profile["mfcc_mean"]\<close> raises \<open>KeyError\<close> when the key is absent.\<close>

definition classify_onset ::
  "(real list \<Rightarrow> int \<Rightarrow> real list) \<Rightarrow> (real list \<Rightarrow> int \<Rightarrow> real)
     \<Rightarrow> real list \<Rightarrow> int \<Rightarrow> int \<Rightarrow> calibration \<Rightarrow> error + string" where
  "classify_onset mfcc centroid audio_buffer onset_sample rate cal =
     (let end = onset_sample + WINDOW_SAMPLES
      in if end > int (length audio_buffer) \<or> onset_sample < 0 then Inr ''guitar''
         else
          (let window = take (nat WINDOW_SAMPLES) (drop (nat onset_sample) audio_buffer)
           in case extract_window_features mfcc centroid window rate of
                Inl e \<Rightarrow> Inl e
              | Inr None \<Rightarrow> Inr ''guitar''
              | Inr (Some feats) \<Rightarrow>
                  if py_not (metronome cal) \<or> py_not (guitar cal) then Inr ''guitar''
                  else
                   (case (mfcc_mean (the (metronome cal)), mfcc_mean (the (guitar cal))) of
                      (Some met_mfcc, Some gtr_mfcc) \<Rightarrow>
                        (case cosine_similarity (feat_mfcc feats) met_mfcc of
                           Inl e \<Rightarrow> Inl e
                         | Inr sim_met \<Rightarrow>
                             (case cosine_similarity (feat_mfcc feats) gtr_mfcc of
                                Inl e \<Rightarrow> Inl e
                              | Inr sim_gtr \<Rightarrow>
                                  (let met_decay = (case energy_decay (the (metronome cal)) of
                                                      None \<Rightarrow> 1 / 2 | Some v \<Rightarrow> v);
                                       gtr_decay = (case energy_decay (the (guitar cal)) of
                                                      None \<Rightarrow> 1 / 2 | Some v \<Rightarrow> v);
                                       onset_decay = feat_energy_decay feats;
                                       decay_dist_met = \<bar>onset_decay - met_decay\<bar>;
                                       decay_dist_gtr = \<bar>onset_decay - gtr_decay\<bar>;
                                       score_met = sim_met - (3 / 10) * decay_dist_met;
                                       score_gtr = sim_gtr - (3 / 10) * decay_dist_gtr
                                   in Inr (if score_met > score_gtr then ''click''
                                           else ''guitar''))))
                    | _ \<Rightarrow> Inl KeyError)))"

text \<open>The energy-decay ratio that \<open>_extract_window_features\<close> computes for a window.\<close>

definition window_decay :: "real list \<Rightarrow> real" where
  "window_decay window =
     (let mid = length window div 2;
          first_energy = sum_list (map (\<lambda>x. x * x) (take mid window));
          second_energy = sum_list (map (\<lambda>x. x * x) (drop mid window))
      in if first_energy > 1 / 10 ^ 10 then second_energy / first_energy else 1)"

text \<open>
  A buffer of 1024 samples of value 1.0 followed by 1024 zeros, and a calibration whose
  profiles both have an all-zero MFCC vector: the zero profile for the metronome, and for the
  guitar a profile that differs from it in the energy decay, 0.5.
\<close>

definition decaying_buffer :: "real list" where
  "decaying_buffer = replicate 1024 1 @ replicate 1024 0"

definition zero_mfcc_calibration :: calibration where
  "zero_mfcc_calibration =
     \<lparr> metronome = Some zero_profile,
       guitar = Some (zero_profile\<lparr> energy_decay := Some (1 / 2) \<rparr>) \<rparr>"

text \<open>
  Two stand-ins for the MFCC routine, one returning the zero vector and one a vector of ones,
  and one for the centroid routine.
\<close>

definition zero_mfcc :: "real list \<Rightarrow> int \<Rightarrow> real list" where
  "zero_mfcc window rate = replicate 13 0"

definition ones_mfcc :: "real list \<Rightarrow> int \<Rightarrow> real list" where
  "ones_mfcc window rate = replicate 13 1"

definition zero_centroid :: "real list \<Rightarrow> int \<Rightarrow> real" where
  "zero_centroid window rate = 0"

section \<open>Properties of the metronome detector\<close>

subsection \<open>Auxiliary facts\<close>

lemma py_round_of_int [simp]: "py_round (of_int k) = k"
  by (simp add: py_round_def)

lemma refit_total:
  "length (click_indices s) = length (click_times s) \<Longrightarrow> \<exists>s'. refit s = Inr s'"
  by (auto simp: refit_def split: prod.splits)

lemma refit_keeps_clicks:
  "refit s = Inr s' \<Longrightarrow>
     onset_times s' = onset_times s \<and> locked s' = locked s \<and> click_times s' = click_times s
     \<and> click_indices s' = click_indices s \<and> clicks_since_refit s' = clicks_since_refit s
     \<and> best_periodic_count s' = best_periodic_count s"
  by (auto simp: refit_def split: prod.splits if_splits)

lemma refit_period_range:
  assumes "refit s = Inr s'"
    and "case period s of None \<Rightarrow> True | Some p \<Rightarrow> 1 / 4 \<le> p \<and> p \<le> 3 / 2"
    and "period s' = Some p'"
  shows "1 / 4 \<le> p' \<and> p' \<le> 3 / 2"
  using assms
  by (auto simp: refit_def MIN_PERIOD_S_def MAX_PERIOD_S_def split: prod.splits if_splits)

lemma refit_period_some:
  "refit s = Inr s' \<Longrightarrow> period s = Some p \<Longrightarrow> \<exists>p'. period s' = Some p'"
  by (auto simp: refit_def split: prod.splits if_splits)

lemma locked_inv_refit:
  assumes "locked_inv s" and "refit s = Inr s'"
  shows "locked_inv s'"
proof -
  from assms(1) obtain p where p: "period s = Some p" "1 / 4 \<le> p" "p \<le> 3 / 2"
    by (auto simp: locked_inv_def split: option.splits)
  from refit_period_some [OF assms(2) p(1)] obtain p' where p': "period s' = Some p'" ..
  have "1 / 4 \<le> p' \<and> p' \<le> 3 / 2"
    using refit_period_range [OF assms(2) _ p'] p by simp
  moreover note refit_keeps_clicks [OF assms(2)]
  ultimately show ?thesis
    using assms(1) p' by (simp add: locked_inv_def)
qed

lemma sorted_le_last:
  fixes xs :: "real list"
  shows "sorted xs \<Longrightarrow> x \<in> set xs \<Longrightarrow> x \<le> last xs"
  by (induction xs) auto

lemma sorted_snoc_gap:
  fixes xs :: "real list"
  assumes "sorted xs" and "xs \<noteq> [] \<longrightarrow> last xs \<le> t"
  shows "sorted (xs @ [t])"
  using assms sorted_le_last [OF assms(1)]
  by (cases "xs = []") (auto simp: sorted_append intro: order_trans)

lemma track_error_bound:
  fixes p r t :: real
  assumes "0 < p"
  shows "\<bar>(t - r) / p - of_int k\<bar> * p * 1000 = \<bar>t - (r + of_int k * p)\<bar> * 1000"
proof -
  have "(t - r) / p - of_int k = (t - (r + of_int k * p)) / p"
    using assms by (simp add: field_simps)
  then have "\<bar>(t - r) / p - of_int k\<bar> * p = \<bar>t - (r + of_int k * p)\<bar>"
    using assms by (simp add: abs_divide)
  then show ?thesis by simp
qed

lemma locked_inv_track_onset:
  assumes "locked_inv s"
  shows "\<exists>b s'. track_onset s t = Inr (b, s') \<and> locked_inv s'"
proof -
  from assms obtain p where p: "period s = Some p" "1 / 4 \<le> p" "p \<le> 3 / 2"
    by (auto simp: locked_inv_def split: option.splits)
  have lk: "locked s" and srt: "sorted (click_times s)"
    and len: "length (click_times s) = length (click_indices s)"
    using assms by (simp_all add: locked_inv_def)
  show ?thesis
  proof (cases "reference_time s")
    case None
    then have "track_onset s t = Inr (False, s)"
      using lk p by (simp add: track_onset_def)
    then show ?thesis using assms by blast
  next
    case (Some r)
    define k where "k = py_round ((t - r) / p)"
    define s1 where "s1 = s\<lparr> click_times := click_times s @ [t],
                              click_indices := click_indices s @ [k],
                              clicks_since_refit := clicks_since_refit s + 1 \<rparr>"
    show ?thesis
    proof (cases "\<bar>(t - r) / p - of_int k\<bar> * p * 1000 > min (p * 250) 50
                  \<or> (click_times s \<noteq> [] \<and> t - last (click_times s) < p * (1 / 2))")
      case True
      then have "track_onset s t = Inr (False, s)"
        using lk p Some by (auto simp: track_onset_def k_def Let_def)
      then show ?thesis using assms by blast
    next
      case False
      then have gap: "click_times s \<noteq> [] \<longrightarrow> last (click_times s) \<le> t"
        using p by auto
      have inv0: "locked_inv (s1\<lparr> clicks_since_refit := c \<rparr>)" for c
        using lk p len sorted_snoc_gap [OF srt gap] by (simp add: locked_inv_def s1_def)
      have inv1: "locked_inv s1"
        using lk p len sorted_snoc_gap [OF srt gap] by (simp add: locked_inv_def s1_def)
      show ?thesis
      proof (cases "clicks_since_refit s1 \<ge> REFIT_INTERVAL")
        case True
        have "length (click_indices (s1\<lparr> clicks_since_refit := 0 \<rparr>))
              = length (click_times (s1\<lparr> clicks_since_refit := 0 \<rparr>))"
          using len by (simp add: s1_def)
        from refit_total [OF this] obtain s2
          where s2: "refit (s1\<lparr> clicks_since_refit := 0 \<rparr>) = Inr s2" ..
        have "track_onset s t = Inr (True, s2)"
          using lk p Some False True s2
          by (auto simp: track_onset_def k_def [symmetric] s1_def [symmetric] Let_def)
        moreover have "locked_inv s2"
          using locked_inv_refit [OF inv0 s2] .
        ultimately show ?thesis by blast
      next
        case norefit: False
        have "track_onset s t = Inr (True, s1)"
          using lk p Some False norefit
          by (auto simp: track_onset_def k_def [symmetric] s1_def [symmetric] Let_def)
        then show ?thesis using inv1 by blast
      qed
    qed
  qed
qed

lemma track_onset_inserted:
  assumes "track_onset s t = Inr (True, s')"
    and "period s = Some p" and "reference_time s = Some r" and "0 < p"
  shows "click_times s' = click_times s @ [t]
         \<and> click_indices s' = click_indices s @ [py_round ((t - r) / p)]
         \<and> \<bar>t - (r + of_int (py_round ((t - r) / p)) * p)\<bar> * 1000 \<le> min (p * 250) 50"
proof -
  define k where "k = py_round ((t - r) / p)"
  have lk: "locked s"
    using assms(1) by (auto simp: track_onset_def split: bool.splits)
  have "\<not> \<bar>(t - r) / p - of_int k\<bar> * p * 1000 > min (p * 250) 50"
    using assms lk
    by (auto simp: track_onset_def k_def Let_def split: if_splits)
  then have "\<bar>(t - r) / p - of_int k\<bar> * p * 1000 \<le> min (p * 250) 50"
    by (simp only: not_less)
  then have bound: "\<bar>t - (r + of_int k * p)\<bar> * 1000 \<le> min (p * 250) 50"
    by (simp only: track_error_bound [OF assms(4)])
  have "click_times s' = click_times s @ [t] \<and> click_indices s' = click_indices s @ [k]"
    using assms lk
    by (auto simp: track_onset_def k_def [symmetric] Let_def
        split: if_splits sum.splits dest!: refit_keeps_clicks)
  then show ?thesis using bound by (simp add: k_def)
qed

lemma compute_click_indices_frame:
  "click_times (compute_click_indices s bp) = click_times s
   \<and> period (compute_click_indices s bp) = period s
   \<and> (click_times s \<noteq> [] \<longrightarrow>
        length (click_indices (compute_click_indices s bp)) = length (click_times s))"
  by (simp add: compute_click_indices_def split: list.splits)

lemma try_lock_establishes:
  assumes "try_lock s = Inr (True, s')" and "period s = None"
  shows "locked_inv s'"
proof -
  from assms(1) obtain ba bp s4 where
    len: "length ba \<ge> MIN_PERIODIC_ONSETS"
    and rf: "refit (compute_click_indices
               (s\<lparr> best_periodic_count := int (length ba), click_times := sort ba \<rparr>) bp) = Inr s4"
    and s': "s' = s4\<lparr> locked := True \<rparr>"
    and some: "period s4 \<noteq> None"
    by (auto simp: try_lock_def Let_def split: if_splits prod.splits option.splits sum.splits)
  define s2 where "s2 = s\<lparr> best_periodic_count := int (length ba), click_times := sort ba \<rparr>"
  have "length (click_times s2) = length ba"
    by (simp add: s2_def)
  then have ne: "click_times s2 \<noteq> []"
    using len by (auto simp: MIN_PERIODIC_ONSETS_def)
  note cf = compute_click_indices_frame [of s2 bp]
  note fr = refit_keeps_clicks [OF rf [folded s2_def]]
  from some obtain p' where p': "period s4 = Some p'" by auto
  have pn: "period (compute_click_indices s2 bp) = None"
    using cf assms(2) by (simp add: s2_def)
  have rng: "1 / 4 \<le> p' \<and> p' \<le> 3 / 2"
    using refit_period_range [OF rf [folded s2_def] _ p'] pn by simp
  have "sorted (click_times s4)"
    using fr cf by (simp add: s2_def)
  moreover have "length (click_times s4) = length (click_indices s4)"
    using fr cf ne by simp
  ultimately show ?thesis
    using rng p' by (simp add: locked_inv_def s')
qed

lemma add_onset_locked:
  "locked s \<Longrightarrow> add_onset s t = Inr (False, s\<lparr> onset_times := onset_times s @ [t] \<rparr>)"
  by (simp add: add_onset_def)

lemma add_onset_establishes:
  assumes "add_onset s t = Inr (True, s')" and "period s = None"
  shows "locked_inv s'"
proof -
  have "try_lock (s\<lparr> onset_times := onset_times s @ [t] \<rparr>) = Inr (True, s')"
    using assms(1) by (auto simp: add_onset_def Let_def split: if_splits)
  then show ?thesis
    using try_lock_establishes assms(2) by simp
qed

lemma locked_example_inv: "locked_inv locked_example"
  by (simp add: locked_inv_def locked_example_def)

lemma track_example:
  "track_onset locked_example (252 / 100)
   = Inr (True, locked_example\<lparr> click_times := [1 / 2, 1, 3 / 2, 2, 252 / 100],
                               click_indices := [0, 1, 2, 3, 4],
                               clicks_since_refit := 1 \<rparr>)"
  by (simp add: track_onset_def locked_example_def Let_def py_round_def REFIT_INTERVAL_def)

lemma lock_example:
  "add_onset (md_init\<lparr> onset_times := [1 / 2, 1, 3 / 2] \<rparr>) 2 = Inr (True, locked_example)"
  by (simp add: add_onset_def md_init_def MIN_PERIODIC_ONSETS_def try_lock_def Let_def WINDOW_S_def
     try_pair_def try_divisor_def aligned_onsets_def MIN_PERIOD_S_def MAX_PERIOD_S_def
     TOLERANCE_S_def py_round_def upt_rec compute_click_indices_def refit_def lstsq_line_def
     locked_example_def)


subsection \<open>Three onsets before any lock\<close>

text \<open>
  Claim C2, as stated, at the onsets 0.5 s, 1.0 s and 1.5 s: the detector stays unlocked, but
  \<open>click_count\<close> is 0 and not 3, because \<open>add_onset\<close> returns before the periodicity search
  while fewer than four onsets are recorded.
\<close>

theorem three_onsets_click_count_counterexample:
  "add_onsets md_init [1 / 2, 1, 3 / 2]
     = Inr (False, md_init\<lparr> onset_times := [1 / 2, 1, 3 / 2] \<rparr>)
   \<and> click_count (md_init\<lparr> onset_times := [1 / 2, 1, 3 / 2] \<rparr>) \<noteq> 3"
  by (simp add: add_onset_def md_init_def MIN_PERIODIC_ONSETS_def click_count_def)

text \<open>
  Claim C2, amended: after exactly three periodic onsets \<open>t\<close>, \<open>t + p\<close>, \<open>t + 2p\<close> fed to
  \<open>add_onset\<close> from the initial state, the detector is not locked, no call reported a lock,
  \<open>total_onsets\<close> is 3 and \<open>click_count\<close> is 0.
\<close>

theorem three_onsets_no_lock:
  "add_onsets md_init [t, t + p, t + 2 * p]
     = Inr (False, md_init\<lparr> onset_times := [t, t + p, t + 2 * p] \<rparr>)
   \<and> locked (md_init\<lparr> onset_times := [t, t + p, t + 2 * p] \<rparr>) = False
   \<and> total_onsets (md_init\<lparr> onset_times := [t, t + p, t + 2 * p] \<rparr>) = 3
   \<and> click_count (md_init\<lparr> onset_times := [t, t + p, t + 2 * p] \<rparr>) = 0"
  by (simp add: add_onset_def md_init_def MIN_PERIODIC_ONSETS_def click_count_def
      total_onsets_def)

subsection \<open>The refit\<close>

text \<open>
  Claim C8: \<open>_refit\<close> leaves the detector as it is when fewer than two clicks are recorded or
  when the fitted period is below 0.25 s or above 1.5 s; when the fitted period lies in
  [0.25, 1.5] it stores the fitted period and reference and sets \<open>bpm\<close> to 60 / period,
  changing nothing else.
\<close>

theorem refit_accepts_only_in_range:
  "(length (click_times s) < 2 \<longrightarrow> refit s = Inr s)
   \<and> (length (click_indices s) = length (click_times s)
        \<and> (fst (lstsq_line (map real_of_int (click_indices s)) (click_times s)) < 1 / 4
           \<or> 3 / 2 < fst (lstsq_line (map real_of_int (click_indices s)) (click_times s)))
       \<longrightarrow> refit s = Inr s)
   \<and> (2 \<le> length (click_times s) \<and> length (click_indices s) = length (click_times s)
        \<and> 1 / 4 \<le> fst (lstsq_line (map real_of_int (click_indices s)) (click_times s))
        \<and> fst (lstsq_line (map real_of_int (click_indices s)) (click_times s)) \<le> 3 / 2
       \<longrightarrow> refit s
           = Inr (s\<lparr> period :=
                       Some (fst (lstsq_line (map real_of_int (click_indices s)) (click_times s))),
                     reference_time :=
                       Some (snd (lstsq_line (map real_of_int (click_indices s)) (click_times s))),
                     bpm :=
                       Some (60 / fst (lstsq_line (map real_of_int (click_indices s))
                                          (click_times s))) \<rparr>))"
  by (auto simp: refit_def MIN_PERIOD_S_def MAX_PERIOD_S_def split: prod.splits)

text \<open>
  Claim C8 at three detectors: one click (nothing fitted), two clicks 2 s apart (fitted period
  2 s, rejected), and three clicks 0.5 s apart (fitted period 0.5 s, accepted, 120 BPM).
\<close>

theorem refit_accepts_only_in_range_witness:
  "refit (md_init\<lparr> click_times := [1], click_indices := [0] \<rparr>)
     = Inr (md_init\<lparr> click_times := [1], click_indices := [0] \<rparr>)
   \<and> refit (md_init\<lparr> click_times := [0, 2], click_indices := [0, 1] \<rparr>)
     = Inr (md_init\<lparr> click_times := [0, 2], click_indices := [0, 1] \<rparr>)
   \<and> refit (md_init\<lparr> click_times := [1, 3 / 2, 2], click_indices := [0, 1, 2] \<rparr>)
     = Inr (md_init\<lparr> click_times := [1, 3 / 2, 2], click_indices := [0, 1, 2],
                     period := Some (1 / 2), reference_time := Some 1, bpm := Some 120 \<rparr>)"
proof -
  have l: "lstsq_line [0, 1] [0, 2] = (2, 0)"
    "lstsq_line [0, 1, 2] [1, 3 / 2, 2] = (1 / 2, 1)"
    by (simp_all add: lstsq_line_def Let_def)
  show ?thesis
    using refit_accepts_only_in_range [of "md_init\<lparr> click_times := [1], click_indices := [0] \<rparr>"]
      refit_accepts_only_in_range [of "md_init\<lparr> click_times := [0, 2], click_indices := [0, 1] \<rparr>"]
      refit_accepts_only_in_range
        [of "md_init\<lparr> click_times := [1, 3 / 2, 2], click_indices := [0, 1, 2] \<rparr>"]
    by (simp add: l)
qed

subsection \<open>Click tracking\<close>

text \<open>
  Claim C5: for a locked detector with period \<open>p\<close> and reference \<open>r\<close>, \<open>track_onset t\<close>
  returns \<open>False\<close> with the state unchanged exactly when
  \<open>error_ms = |offset - round(offset)| * p * 1000\<close>, with \<open>offset = (t - r) / p\<close>, exceeds
  \<open>min(p * 250, 50)\<close>, or \<open>click_times\<close> is non-empty and \<open>t\<close> is less than \<open>0.5 * p\<close> after its
  last element. Otherwise it returns \<open>True\<close>, having appended \<open>t\<close> and \<open>round(offset)\<close> and
  incremented \<open>_clicks_since_refit\<close>; when the counter reaches 4 it is reset to 0 and the
  state is refitted, and otherwise there is no refit. The counter of a detector is below 4
  before every call.
\<close>

theorem track_onset_decision:
  assumes "locked s" and "period s = Some p" and "reference_time s = Some r" and "p \<noteq> 0"
    and "length (click_indices s) = length (click_times s)"
    and "clicks_since_refit s < 4"
  shows "let offset = (t - r) / p;
             nearest = py_round offset;
             error_ms = \<bar>offset - of_int nearest\<bar> * p * 1000;
             reject = (error_ms > min (p * 250) 50
                       \<or> (click_times s \<noteq> [] \<and> t - last (click_times s) < (1 / 2) * p));
             appended = s\<lparr> click_times := click_times s @ [t],
                            click_indices := click_indices s @ [nearest] \<rparr>
         in (track_onset s t = Inr (False, s) \<longleftrightarrow> reject)
            \<and> (\<not> reject \<longrightarrow>
                 (if clicks_since_refit s + 1 = 4
                  then (\<exists>s'. refit (appended\<lparr> clicks_since_refit := 0 \<rparr>) = Inr s'
                            \<and> track_onset s t = Inr (True, s'))
                  else track_onset s t
                       = Inr (True, appended\<lparr> clicks_since_refit := clicks_since_refit s + 1 \<rparr>)))"
proof -
  define offset where "offset = (t - r) / p"
  define nearest where "nearest = py_round offset"
  define appended where "appended = s\<lparr> click_times := click_times s @ [t],
                            click_indices := click_indices s @ [nearest] \<rparr>"
  define reject where "reject \<longleftrightarrow> (\<bar>offset - of_int nearest\<bar> * p * 1000 > min (p * 250) 50
                       \<or> (click_times s \<noteq> [] \<and> t - last (click_times s) < (1 / 2) * p))"
  have len: "length (click_indices (appended\<lparr> clicks_since_refit := 0 \<rparr>))
             = length (click_times (appended\<lparr> clicks_since_refit := 0 \<rparr>))"
    using assms(5) by (simp add: appended_def)
  obtain s2 where s2: "refit (appended\<lparr> clicks_since_refit := 0 \<rparr>) = Inr s2"
    using refit_total [OF len] by blast
  have rej: "reject \<Longrightarrow> track_onset s t = Inr (False, s)"
    using assms(1-4)
    by (auto simp: track_onset_def reject_def offset_def nearest_def Let_def)
  have acc4: "\<not> reject \<Longrightarrow> clicks_since_refit s + 1 = 4 \<Longrightarrow> track_onset s t = Inr (True, s2)"
    using assms(1-4) s2
    by (auto simp: track_onset_def reject_def offset_def nearest_def appended_def Let_def
        REFIT_INTERVAL_def)
  have acc: "\<not> reject \<Longrightarrow> clicks_since_refit s + 1 \<noteq> 4 \<Longrightarrow>
     track_onset s t = Inr (True, appended\<lparr> clicks_since_refit := clicks_since_refit s + 1 \<rparr>)"
    using assms(1-4,6)
    by (auto simp: track_onset_def reject_def offset_def nearest_def appended_def Let_def
        REFIT_INTERVAL_def)
  have iff: "track_onset s t = Inr (False, s) \<longleftrightarrow> reject"
  proof (cases reject)
    case True
    then show ?thesis using rej by simp
  next
    case False
    then show ?thesis using acc4 acc by (cases "clicks_since_refit s + 1 = 4") auto
  qed
  show ?thesis
    unfolding Let_def
    using iff acc4 acc s2
    unfolding reject_def appended_def nearest_def offset_def
    by auto
qed

text \<open>
  Claim C5 at a detector locked at 120 BPM with clicks at 0.5, 1.0, 1.5 and 2.0 s: the onset
  2.52 s (20 ms late) is a click and is appended without a refit; 2.75 s (half a period off)
  and 2.02 s (20 ms after the last click) are rejected with the state unchanged; and at a
  detector whose counter is 3 the accepted onset 2.04 s is followed by a refit.
\<close>

theorem track_onset_decision_witness:
  "track_onset locked_example (252 / 100)
     = Inr (True, locked_example\<lparr> click_times := click_times locked_example @ [252 / 100],
                                 click_indices := click_indices locked_example @ [4],
                                 clicks_since_refit := 1 \<rparr>)
   \<and> track_onset locked_example (275 / 100) = Inr (False, locked_example)
   \<and> track_onset locked_example (202 / 100) = Inr (False, locked_example)
   \<and> (\<exists>s'. refit (refit_due_example\<lparr> click_times := click_times refit_due_example @ [204 / 100],
                      click_indices := click_indices refit_due_example @ [4],
                      clicks_since_refit := 0 \<rparr>) = Inr s'
           \<and> track_onset refit_due_example (204 / 100) = Inr (True, s'))"
proof -
  have e: "locked locked_example" "period locked_example = Some (1 / 2)"
    "reference_time locked_example = Some (1 / 2)"
    "length (click_indices locked_example) = length (click_times locked_example)"
    "clicks_since_refit locked_example < 4" "clicks_since_refit locked_example = 0"
    "click_times locked_example = [1 / 2, 1, 3 / 2, 2]"
    by (simp_all add: locked_example_def)
  have d: "locked refit_due_example" "period refit_due_example = Some (1 / 2)"
    "reference_time refit_due_example = Some 0"
    "length (click_indices refit_due_example) = length (click_times refit_due_example)"
    "clicks_since_refit refit_due_example < 4" "clicks_since_refit refit_due_example = 3"
    "click_times refit_due_example = [0, 1 / 2, 1, 3 / 2]"
    by (simp_all add: refit_due_example_def)
  have r: "py_round (101 / 25) = 4" "py_round (9 / 2) = 4" "py_round (76 / 25) = 3"
    "py_round (102 / 25) = 4"
    by (simp_all add: py_round_def)
  have "track_onset locked_example (252 / 100)
     = Inr (True, locked_example\<lparr> click_times := click_times locked_example @ [252 / 100],
                                 click_indices := click_indices locked_example @ [4],
                                 clicks_since_refit := 1 \<rparr>)"
    using track_onset_decision [OF e(1-3) _ e(4,5), of "252 / 100"]
    by (simp add: Let_def r e(6,7))
  moreover have "track_onset locked_example (275 / 100) = Inr (False, locked_example)"
    using track_onset_decision [OF e(1-3) _ e(4,5), of "275 / 100"]
    by (simp add: Let_def r e(6,7))
  moreover have "track_onset locked_example (202 / 100) = Inr (False, locked_example)"
    using track_onset_decision [OF e(1-3) _ e(4,5), of "202 / 100"]
    by (simp add: Let_def r e(6,7))
  moreover have "\<exists>s'. refit (refit_due_example\<lparr> click_times := click_times refit_due_example @ [204 / 100],
                      click_indices := click_indices refit_due_example @ [4],
                      clicks_since_refit := 0 \<rparr>) = Inr s'
           \<and> track_onset refit_due_example (204 / 100) = Inr (True, s')"
    using track_onset_decision [OF d(1-3) _ d(4,5), of "204 / 100"]
    by (auto simp add: Let_def r d(6,7))
  ultimately show ?thesis by blast
qed

subsection \<open>The invariant of the locked detector\<close>

text \<open>
  What holds of the invariant. A locked detector whose period lies in [0.25, 1.5], whose click
  times ascend and which has as many click indices as click times stays so under
  \<open>add_onset\<close>, \<open>track_onset\<close> and \<open>_refit\<close>, none of which raises from such a state. A
  click that \<open>track_onset\<close> inserts lies within \<open>min(period * 250, 50)\<close> ms of
  \<open>reference_time + index * period\<close>, taken with the period and reference at the moment of the
  insertion. A call of \<open>add_onset\<close> that locks a detector which had no period before, and
  returns, leaves it with the invariant.
\<close>

theorem locked_invariant_preserved:
  "(locked_inv s \<longrightarrow>
      add_onset s t = Inr (False, s\<lparr> onset_times := onset_times s @ [t] \<rparr>)
      \<and> locked_inv (s\<lparr> onset_times := onset_times s @ [t] \<rparr>)
      \<and> (\<exists>b s'. track_onset s t = Inr (b, s') \<and> locked_inv s')
      \<and> (\<exists>s'. refit s = Inr s' \<and> locked_inv s'))
   \<and> (locked_inv s \<and> period s = Some p \<and> reference_time s = Some r
        \<and> track_onset s t = Inr (True, s1)
       \<longrightarrow> click_times s1 = click_times s @ [t]
           \<and> click_indices s1 = click_indices s @ [py_round ((t - r) / p)]
           \<and> \<bar>t - (r + of_int (py_round ((t - r) / p)) * p)\<bar> * 1000 \<le> min (p * 250) 50)
   \<and> (\<not> locked s \<and> period s = None \<and> add_onset s t = Inr (True, s2) \<longrightarrow> locked_inv s2)"
proof (intro conjI impI)
  assume inv: "locked_inv s"
  then have lk: "locked s" by (simp add: locked_inv_def)
  show "add_onset s t = Inr (False, s\<lparr> onset_times := onset_times s @ [t] \<rparr>)"
    using add_onset_locked [OF lk] .
  show "locked_inv (s\<lparr> onset_times := onset_times s @ [t] \<rparr>)"
    using inv by (simp add: locked_inv_def)
  show "\<exists>b s'. track_onset s t = Inr (b, s') \<and> locked_inv s'"
    using locked_inv_track_onset [OF inv] .
  have "length (click_indices s) = length (click_times s)"
    using inv by (simp add: locked_inv_def)
  from refit_total [OF this] obtain s' where "refit s = Inr s'" ..
  then show "\<exists>s'. refit s = Inr s' \<and> locked_inv s'"
    using locked_inv_refit [OF inv] by blast
next
  assume a: "locked_inv s \<and> period s = Some p \<and> reference_time s = Some r
        \<and> track_onset s t = Inr (True, s1)"
  then have "0 < p" by (auto simp: locked_inv_def)
  with a have *: "click_times s1 = click_times s @ [t]
         \<and> click_indices s1 = click_indices s @ [py_round ((t - r) / p)]
         \<and> \<bar>t - (r + of_int (py_round ((t - r) / p)) * p)\<bar> * 1000 \<le> min (p * 250) 50"
    using track_onset_inserted [of s t s1 p r] by blast
  from * show "click_times s1 = click_times s @ [t]" by blast
  from * show "click_indices s1 = click_indices s @ [py_round ((t - r) / p)]" by blast
  from * show "\<bar>t - (r + of_int (py_round ((t - r) / p)) * p)\<bar> * 1000 \<le> min (p * 250) 50"
    by blast
next
  assume "\<not> locked s \<and> period s = None \<and> add_onset s t = Inr (True, s2)"
  then show "locked_inv s2"
    using add_onset_establishes [of s t s2] by blast
qed

text \<open>
  The same at the detector locked by the onsets 0.5, 1.0, 1.5 and 2.0 s: the fourth
  \<open>add_onset\<close> returns with the invariant, a further \<open>add_onset\<close> and the \<open>track_onset\<close> of
  2.52 s keep it, and the inserted click is 20 ms from its grid line, within the 50 ms
  tolerance.
\<close>

theorem locked_invariant_preserved_witness:
  "locked_inv locked_example
   \<and> locked_inv (locked_example\<lparr> onset_times := onset_times locked_example @ [252 / 100] \<rparr>)
   \<and> locked_inv (locked_example\<lparr> click_times := [1 / 2, 1, 3 / 2, 2, 252 / 100],
                               click_indices := [0, 1, 2, 3, 4],
                               clicks_since_refit := 1 \<rparr>)
   \<and> \<bar>252 / 100 - (1 / 2 + of_int (py_round ((252 / 100 - 1 / 2) / (1 / 2))) * (1 / 2))\<bar> * 1000
       \<le> min ((1 / 2) * 250) (50 :: real)
   \<and> \<not> locked (md_init\<lparr> onset_times := [1 / 2, 1, 3 / 2] \<rparr>)"
proof -
  let ?s1 = "locked_example\<lparr> click_times := [1 / 2, 1, 3 / 2, 2, 252 / 100],
                               click_indices := [0, 1, 2, 3, 4],
                               clicks_since_refit := 1 \<rparr>"
  note a = locked_invariant_preserved [of locked_example "252 / 100" "1 / 2" "1 / 2" ?s1]
  note b = locked_invariant_preserved
             [of "md_init\<lparr> onset_times := [1 / 2, 1, 3 / 2] \<rparr>" 2 _ _ _ locked_example]
  have p: "period locked_example = Some (1 / 2)" "reference_time locked_example = Some (1 / 2)"
    by (simp_all add: locked_example_def)
  have u: "\<not> locked (md_init\<lparr> onset_times := [1 / 2, 1, 3 / 2] \<rparr>)"
      "period (md_init\<lparr> onset_times := [1 / 2, 1, 3 / 2] \<rparr>) = None"
    by (simp_all add: md_init_def)
  have "locked_inv locked_example" using b u lock_example by blast
  moreover have
    "locked_inv (locked_example\<lparr> onset_times := onset_times locked_example @ [252 / 100] \<rparr>)"
    using a locked_example_inv by blast
  moreover have "locked_inv ?s1"
    using a locked_example_inv track_example by auto
  moreover have
    "\<bar>252 / 100 - (1 / 2 + of_int (py_round ((252 / 100 - 1 / 2) / (1 / 2))) * (1 / 2))\<bar> * 1000
       \<le> min ((1 / 2) * 250) (50 :: real)"
    using a locked_example_inv track_example p by blast
  ultimately show ?thesis using u by blast
qed

lemma try_lock_outcome_agrees:
  "try_lock s = (case try_lock_outcome s of (Inl e, _) \<Rightarrow> Inl e | (Inr b, s') \<Rightarrow> Inr (b, s'))"
  by (simp add: try_lock_def try_lock_outcome_def Let_def
      split: prod.splits option.splits sum.splits)

lemma add_onset_outcome_agrees:
  "add_onset s t
   = (case add_onset_outcome s t of (Inl e, _) \<Rightarrow> Inl e | (Inr b, s') \<Rightarrow> Inr (b, s'))"
  by (simp add: add_onset_def add_onset_outcome_def Let_def try_lock_outcome_agrees)

lemma stuck_outcome:
  "add_onset_outcome (md_init\<lparr> onset_times := [0, 1 / 4, 1 / 2] \<rparr>) (74 / 100)
   = (Inl TypeError, stuck_example)"
  by (simp add: add_onset_outcome_def md_init_def MIN_PERIODIC_ONSETS_def try_lock_outcome_def
     Let_def WINDOW_S_def try_pair_def try_divisor_def aligned_onsets_def MIN_PERIOD_S_def
     MAX_PERIOD_S_def TOLERANCE_S_def py_round_def upt_rec compute_click_indices_def refit_def
     lstsq_line_def stuck_example_def)

text \<open>
  Claim C4 at the onsets 0 s, 0.25 s, 0.5 s and 0.74 s fed to \<open>add_onset\<close> from the initial
  state. The fourth onset finds all four aligned to a period of 0.25 s; the line fitted
  through them has period 0.247 s, which \<open>_refit\<close> rejects, so \<open>period\<close>, \<open>reference_time\<close>
  and \<open>bpm\<close> stay \<open>None\<close>. \<open>_try_lock\<close> sets \<open>locked\<close> all the same and raises \<open>TypeError\<close>
  in the log line that formats \<open>bpm\<close>. The detector it leaves is locked without a period: the
  invariant of the locked detector does not hold of it, and \<open>track_onset\<close> rejects every
  onset from then on.
\<close>

theorem lock_with_rejected_refit_breaks_invariant:
  "add_onsets md_init [0, 1 / 4, 1 / 2] = Inr (False, md_init\<lparr> onset_times := [0, 1 / 4, 1 / 2] \<rparr>)
   \<and> add_onset (md_init\<lparr> onset_times := [0, 1 / 4, 1 / 2] \<rparr>) (74 / 100) = Inl TypeError
   \<and> add_onset_outcome (md_init\<lparr> onset_times := [0, 1 / 4, 1 / 2] \<rparr>) (74 / 100)
       = (Inl TypeError, stuck_example)
   \<and> locked stuck_example
   \<and> period stuck_example = None
   \<and> \<not> locked_inv stuck_example
   \<and> track_onset stuck_example 1 = Inr (False, stuck_example)"
proof -
  have 1: "add_onsets md_init [0, 1 / 4, 1 / 2]
           = Inr (False, md_init\<lparr> onset_times := [0, 1 / 4, 1 / 2] \<rparr>)"
    by (simp add: add_onset_def md_init_def MIN_PERIODIC_ONSETS_def)
  have 2: "add_onset (md_init\<lparr> onset_times := [0, 1 / 4, 1 / 2] \<rparr>) (74 / 100) = Inl TypeError"
    unfolding add_onset_outcome_agrees stuck_outcome by simp
  have 3: "locked stuck_example" "period stuck_example = None" "\<not> locked_inv stuck_example"
    by (simp_all add: stuck_example_def locked_inv_def)
  have 4: "track_onset stuck_example 1 = Inr (False, stuck_example)"
    by (simp add: track_onset_def stuck_example_def)
  from 1 2 3 4 stuck_outcome show ?thesis by (intro conjI)
qed

subsection \<open>The undo of a click by the pipeline\<close>



section \<open>Properties of the grid aligner\<close>

lemma py_round_n_zero [simp]: "py_round_n 0 n = 0"
  by (simp add: py_round_n_def py_round_def)

lemma compute_deviation_cases:
  assumes "compute_deviation c t = Inr (d, g, bar, bp)"
  obtains gi where "grid_interval c = Inr gi" and "gi \<noteq> 0"
    and "g = grid_reference_time c + of_int (py_round ((t - grid_reference_time c) / gi)) * gi"
    and "bar = py_round ((t - grid_reference_time c) / gi)
                 div (if grid_resolution c = ''16th'' then 16 else 8) + 1"
    and "d = py_round_n ((t - g) * 1000) 1"
  using assms
  by (auto simp: compute_deviation_def Let_def split: sum.splits if_splits)

text \<open>
  Claim C6: for a grid with a non-zero tempo and an onset whose grid index
  \<open>k = round((t - reference) / grid_interval)\<close> is negative, \<open>compute_deviation\<close> returns, and
  the bar it returns is \<open>floor(k / subdivisions_per_bar) + 1\<close> with the mathematical floor,
  which is at most 0.
\<close>

theorem negative_index_bar_floor:
  assumes "grid_bpm c \<noteq> 0"
    and "gi = 60 / grid_bpm c / (if grid_resolution c = ''16th'' then 4 else 2)"
    and "k = py_round ((t - grid_reference_time c) / gi)"
    and "k < 0"
  shows "\<exists>d g bar bp. compute_deviation c t = Inr (d, g, bar, bp)
           \<and> bar = \<lfloor>real_of_int k / (if grid_resolution c = ''16th'' then 16 else 8)\<rfloor> + 1
           \<and> bar \<le> 0"
proof -
  define n :: int where "n = (if grid_resolution c = ''16th'' then 16 else 8)"
  have npos: "0 < n" by (simp add: n_def)
  have gi: "grid_interval c = Inr gi" "gi \<noteq> 0"
    using assms(1,2) by (auto simp: grid_interval_def beat_duration_def)
  have fl: "\<lfloor>real_of_int k / real_of_int n\<rfloor> = k div n"
    by (rule floor_divide_of_int_eq)
  have neg: "k div n < 0"
    using assms(4) npos by (simp add: div_neg_pos_less0)
  have "\<exists>d g bp. compute_deviation c t = Inr (d, g, k div n + 1, bp)"
    using gi assms(3) by (simp add: compute_deviation_def Let_def n_def)
  moreover have "k div n + 1 = \<lfloor>real_of_int k / (if grid_resolution c = ''16th'' then 16 else 8)\<rfloor> + 1"
    using fl by (simp add: n_def split: if_splits)
  moreover have "k div n + 1 \<le> 0" using neg by simp
  ultimately show ?thesis by metis
qed

text \<open>
  Claim C6 at 120 BPM, eighth-note grid, reference 1.0 s and the onset 0.7 s: the grid index
  is -1 and the bar is 0, where truncation toward zero would have given bar 1.
\<close>

theorem negative_index_bar_floor_witness:
  "\<exists>d g bar bp.
      compute_deviation \<lparr> grid_bpm = 120, grid_resolution = ''8th'', grid_reference_time = 1 \<rparr>
        (7 / 10) = Inr (d, g, bar, bp)
      \<and> bar = \<lfloor>real_of_int (- 1) / 8\<rfloor> + 1 \<and> bar \<le> 0 \<and> bar = 0"
proof -
  let ?c = "\<lparr> grid_bpm = 120, grid_resolution = ''8th'', grid_reference_time = 1 \<rparr>"
  have r: "- 1 = py_round ((7 / 10 - grid_reference_time ?c) / (1 / 4))"
    by (simp add: py_round_def)
  have "\<exists>d g bar bp. compute_deviation ?c (7 / 10) = Inr (d, g, bar, bp)
           \<and> bar = \<lfloor>real_of_int (- 1) / (if grid_resolution ?c = ''16th'' then 16 else 8)\<rfloor> + 1
           \<and> bar \<le> 0"
    by (rule negative_index_bar_floor [where gi = "1 / 4", OF _ _ r]) simp_all
  then show ?thesis by auto
qed

text \<open>
  Claim C9: if \<open>compute_deviation(t)\<close> returns the nearest grid time \<open>g\<close>, then
  \<open>compute_deviation(g)\<close> returns the deviation 0 and the same grid time \<open>g\<close>.
\<close>

theorem compute_deviation_idempotent:
  assumes "compute_deviation c t = Inr (d, g, bar, bp)"
  shows "\<exists>bar' bp'. compute_deviation c g = Inr (0, g, bar', bp')"
proof -
  from assms obtain gi where gi: "grid_interval c = Inr gi" "gi \<noteq> 0"
    and g: "g = grid_reference_time c + of_int (py_round ((t - grid_reference_time c) / gi)) * gi"
    by (rule compute_deviation_cases)
  define k where "k = py_round ((t - grid_reference_time c) / gi)"
  have "(g - grid_reference_time c) / gi = of_int k"
    using gi(2) g by (simp add: k_def)
  then have "py_round ((g - grid_reference_time c) / gi) = k"
    by simp
  then show ?thesis
    using gi g by (simp add: compute_deviation_def Let_def k_def)
qed

text \<open>
  Claim C9 at 120 BPM, eighth-note grid, reference 1.0 s: the onset 0.7 s snaps to 0.75 s
  with a deviation of -50 ms, and 0.75 s snaps to itself with deviation 0.
\<close>

theorem compute_deviation_idempotent_witness:
  "compute_deviation \<lparr> grid_bpm = 120, grid_resolution = ''8th'', grid_reference_time = 1 \<rparr>
        (7 / 10) = Inr (- 50, 3 / 4, 0, 9 / 2)
   \<and> (\<exists>bar' bp'.
        compute_deviation \<lparr> grid_bpm = 120, grid_resolution = ''8th'', grid_reference_time = 1 \<rparr>
          (3 / 4) = Inr (0, 3 / 4, bar', bp'))"
proof -
  let ?c = "\<lparr> grid_bpm = 120, grid_resolution = ''8th'', grid_reference_time = 1 \<rparr>"
  have gi: "grid_interval ?c = Inr (1 / 4)"
    by (simp add: grid_interval_def beat_duration_def)
  have cd: "compute_deviation ?c (7 / 10) = Inr (- 50, 3 / 4, 0, 9 / 2)"
    by (simp add: compute_deviation_def gi Let_def py_round_def py_round_n_def)
  show ?thesis
    using compute_deviation_idempotent [OF cd] cd by simp
qed

section \<open>Properties of the onset detector\<close>

subsection \<open>Auxiliary facts\<close>

lemma np_sum_replicate_Fin: "np_sum (replicate n (Fin a)) = Fin (real n * a)"
  by (induction n) (simp_all add: algebra_simps)

lemma np_sum_replicate_NaN: "0 < n \<Longrightarrow> np_sum (replicate n NaN) = NaN"
  by (cases n) simp_all

lemma frame_rms_replicate_Fin:
  "0 < n \<Longrightarrow> 0 \<le> a \<Longrightarrow> frame_rms (replicate n (Fin a)) = Fin a"
  by (simp add: frame_rms_def np_mean_def np_sum_replicate_Fin real_sqrt_mult_self)

lemma frame_rms_replicate_NaN: "0 < n \<Longrightarrow> frame_rms (replicate n NaN) = NaN"
  by (simp add: frame_rms_def np_mean_def np_sum_replicate_NaN)

lemma frame_starts_small: "n < 512 \<Longrightarrow> frame_starts n = []"
  by (simp add: frame_starts_def frame_count_of_def frame_size_def)

lemma frame_starts_512: "frame_starts 512 = [0]"
  by (simp add: frame_starts_def frame_count_of_def frame_size_def hop_size_def)

lemma process_chunk_short:
  "length c < 512 \<Longrightarrow>
     process_chunk s c = Inr ([], s\<lparr> total_samples := total_samples s + int (length c) \<rparr>)"
  by (simp add: process_chunk_def frame_starts_small)

lemmas detector_consts = alpha_smooth_def py_max_def flt_def
      min_threshold_def threshold_ratio_def alpha_mean_rise_def alpha_mean_fall_def
      log_interval_def hysteresis_ratio_def

lemma loud_frame_init:
  "process_chunk (detector_init 44100 (1 / 20)) (replicate 512 (Fin 1))
   = Inr ([0], (detector_init 44100 (1 / 20))\<lparr> smoothed_rms := Fin (3 / 10), peak_rms := Fin 1,
         above_threshold := True, last_onset_time := Some 0, mean_rms := Fin (1 / 100),
         frame_count := 1, total_samples := 512 \<rparr>)"
  by (simp add: process_chunk_def frame_starts_512 process_frame_def frame_size_def
      frame_rms_replicate_Fin detector_init_def Let_def detect_edge_def update_baseline_def
      detector_consts)

lemma process_chunks_short:
  "\<forall>c\<in>set cs. length c < 512 \<Longrightarrow>
     process_chunks s cs
     = Inr ([], s\<lparr> total_samples := total_samples s + int (length (concat cs)) \<rparr>)"
proof (induction cs arbitrary: s)
  case Nil
  then show ?case by simp
next
  case (Cons c cs)
  then show ?case
    by (simp add: process_chunk_short add.assoc)
qed

lemma frame_starts_bound:
  assumes "i \<in> set (frame_starts n)"
  shows "i + 512 \<le> n"
proof -
  from assms obtain k where k: "k < frame_count_of n" "i = 256 * k"
    by (auto simp: frame_starts_def hop_size_def)
  then have n: "512 \<le> n" and "k \<le> (n - 512) div 256"
    by (auto simp: frame_count_of_def frame_size_def hop_size_def split: if_splits)
  then have "256 * k \<le> n - 512"
    by arith
  then show ?thesis using k n by simp
qed

lemma process_frame_cong:
  "take 512 (drop i a) = take 512 (drop i b) \<Longrightarrow> process_frame a i acc = process_frame b i acc"
  by (simp add: process_frame_def frame_size_def)

lemma run_frames_cong:
  "\<forall>i\<in>set starts. take 512 (drop i a) = take 512 (drop i b) \<Longrightarrow>
     run_frames a starts acc = run_frames b starts acc"
proof (induction starts arbitrary: acc)
  case Nil
  then show ?case by simp
next
  case (Cons i starts)
  then show ?case
    by (simp add: process_frame_cong [of i a b] split: sum.splits)
qed

lemma run_frames_append_chunk:
  "run_frames (c @ r) (frame_starts (length c)) acc = run_frames c (frame_starts (length c)) acc"
proof (rule run_frames_cong, rule ballI)
  fix i assume "i \<in> set (frame_starts (length c))"
  then have "i + 512 \<le> length c" by (rule frame_starts_bound)
  then show "take 512 (drop i (c @ r)) = take 512 (drop i c)" by simp
qed

lemma nf_fadd_l: "\<not> is_finite a \<Longrightarrow> \<not> is_finite (fadd a b)"
  by (cases a; cases b) (simp_all add: is_finite_def)

lemma nf_fadd_r: "\<not> is_finite b \<Longrightarrow> \<not> is_finite (fadd a b)"
  by (cases a; cases b) (simp_all add: is_finite_def)

lemma nf_fmul_const: "c \<noteq> 0 \<Longrightarrow> \<not> is_finite b \<Longrightarrow> \<not> is_finite (fmul (Fin c) b)"
  by (cases b) (simp_all add: is_finite_def)

lemma nf_square: "\<not> is_finite x \<Longrightarrow> \<not> is_finite (fmul x x)"
  by (cases x) (simp_all add: is_finite_def)

lemma nf_np_sum: "\<exists>x\<in>set xs. \<not> is_finite x \<Longrightarrow> \<not> is_finite (np_sum xs)"
proof (induction xs)
  case Nil
  then show ?case by simp
next
  case (Cons a xs)
  show ?case
  proof (cases "is_finite a")
    case True
    with Cons.prems have "\<exists>x\<in>set xs. \<not> is_finite x" by auto
    then have "\<not> is_finite (np_sum xs)" by (rule Cons.IH)
    then show ?thesis by (simp add: nf_fadd_r)
  next
    case False
    then show ?thesis by (simp add: nf_fadd_l)
  qed
qed

lemma nf_np_mean: "\<not> is_finite (np_sum xs) \<Longrightarrow> \<not> is_finite (np_mean xs)"
  by (cases "np_sum xs") (simp_all add: np_mean_def is_finite_def)

lemma nf_fsqrt: "\<not> is_finite x \<Longrightarrow> \<not> is_finite (fsqrt x)"
  by (cases x) (simp_all add: is_finite_def)

lemma nf_frame_rms:
  assumes "\<exists>x\<in>set frame. \<not> is_finite x"
  shows "\<not> is_finite (frame_rms frame)"
proof -
  from assms have "\<exists>y\<in>set (map (\<lambda>x. fmul x x) frame). \<not> is_finite y"
    using nf_square by auto
  then show ?thesis
    unfolding frame_rms_def by (intro nf_fsqrt nf_np_mean nf_np_sum)
qed

lemma detect_edge_total:
  "sample_rate s \<noteq> 0 \<Longrightarrow> \<exists>os' s'. detect_edge i th (os, s) = Inr (os', s')"
  by (simp add: detect_edge_def Let_def)

lemma detect_edge_keeps:
  "detect_edge i th (os, s) = Inr (os', s') \<Longrightarrow>
     smoothed_rms s' = smoothed_rms s \<and> mean_rms s' = mean_rms s
     \<and> sample_rate s' = sample_rate s \<and> total_samples s' = total_samples s"
  by (auto simp: detect_edge_def Let_def split: if_splits)

lemma detect_edge_NaN:
  "detect_edge i th (os, s) = Inr (os', s') \<Longrightarrow> smoothed_rms s = NaN \<Longrightarrow> os' = os"
  by (auto simp: detect_edge_def Let_def split: if_splits)

lemma process_frame_total:
  assumes "sample_rate s \<noteq> 0"
  shows "\<exists>os' s'. process_frame c i (os, s) = Inr (os', s') \<and> sample_rate s' = sample_rate s"
proof -
  define s1 where "s1 = s\<lparr> smoothed_rms := fadd (fmul (Fin alpha_smooth)
                               (frame_rms (take frame_size (drop i c))))
                            (fmul (Fin (1 - alpha_smooth)) (smoothed_rms s)),
                    peak_rms := (if fgt (frame_rms (take frame_size (drop i c))) (peak_rms s)
                                 then frame_rms (take frame_size (drop i c)) else peak_rms s) \<rparr>"
  define th where "th = py_max (Fin min_threshold) (fmul (mean_rms s) (Fin threshold_ratio))"
  have "sample_rate s1 \<noteq> 0" using assms by (simp add: s1_def)
  from detect_edge_total [OF this] obtain os' s2
    where de: "detect_edge i th (os, s1) = Inr (os', s2)" by blast
  from detect_edge_keeps [OF de] have "sample_rate s2 = sample_rate s"
    by (simp add: s1_def)
  then show ?thesis
    using de assms
    by (simp add: process_frame_def Let_def s1_def [symmetric] th_def [symmetric]
        update_baseline_def)
qed

lemma process_frame_estimates:
  assumes "process_frame c i (os, s) = Inr (os', s')"
  shows "smoothed_rms s' = fadd (fmul (Fin alpha_smooth) (frame_rms (take frame_size (drop i c))))
                               (fmul (Fin (1 - alpha_smooth)) (smoothed_rms s))
         \<and> (\<exists>alpha. (alpha = alpha_mean_rise \<or> alpha = alpha_mean_fall)
              \<and> mean_rms s' = fadd (fmul (Fin alpha) (frame_rms (take frame_size (drop i c))))
                                   (fmul (Fin (1 - alpha)) (mean_rms s)))
         \<and> (smoothed_rms s' = NaN \<longrightarrow> os' = os)"
proof -
  define s1 where "s1 = s\<lparr> smoothed_rms := fadd (fmul (Fin alpha_smooth)
                               (frame_rms (take frame_size (drop i c))))
                            (fmul (Fin (1 - alpha_smooth)) (smoothed_rms s)),
                    peak_rms := (if fgt (frame_rms (take frame_size (drop i c))) (peak_rms s)
                                 then frame_rms (take frame_size (drop i c)) else peak_rms s) \<rparr>"
  define th where "th = py_max (Fin min_threshold) (fmul (mean_rms s) (Fin threshold_ratio))"
  from assms obtain s2 where de: "detect_edge i th (os, s1) = Inr (os', s2)"
    and s': "s' = (update_baseline (frame_rms (take frame_size (drop i c))) s2)
                    \<lparr> frame_count := frame_count s2 + 1 \<rparr>"
    by (auto simp: process_frame_def Let_def s1_def [symmetric] th_def [symmetric]
        split: sum.splits if_splits)
  note k = detect_edge_keeps [OF de]
  have sm: "smoothed_rms s' = smoothed_rms s1"
    using k by (simp add: s' update_baseline_def Let_def)
  have "smoothed_rms s' = NaN \<longrightarrow> os' = os"
    using detect_edge_NaN [OF de] sm by simp
  moreover have "\<exists>alpha. (alpha = alpha_mean_rise \<or> alpha = alpha_mean_fall)
              \<and> mean_rms s' = fadd (fmul (Fin alpha) (frame_rms (take frame_size (drop i c))))
                                   (fmul (Fin (1 - alpha)) (mean_rms s))"
    using k by (auto simp: s' update_baseline_def Let_def s1_def)
  ultimately show ?thesis
    using sm by (simp add: s1_def)
qed

lemma fadd_NaN_right [simp]: "fadd a NaN = NaN"
  by (cases a) simp_all

lemma fmul_NaN_right [simp]: "fmul a NaN = NaN"
  by (cases a) simp_all

lemma step_nonfinite:
  assumes "process_frame c i (os, s) = Inr (os', s')"
  shows "(\<not> is_finite (smoothed_rms s) \<longrightarrow> \<not> is_finite (smoothed_rms s'))
         \<and> (\<not> is_finite (mean_rms s) \<longrightarrow> \<not> is_finite (mean_rms s'))
         \<and> (\<not> is_finite (frame_rms (take frame_size (drop i c)))
              \<longrightarrow> \<not> is_finite (smoothed_rms s') \<and> \<not> is_finite (mean_rms s'))
         \<and> (smoothed_rms s = NaN \<longrightarrow> os' = os \<and> smoothed_rms s' = NaN)"
proof -
  note e = process_frame_estimates [OF assms]
  from e obtain alpha where al: "alpha = alpha_mean_rise \<or> alpha = alpha_mean_fall"
    and m: "mean_rms s' = fadd (fmul (Fin alpha) (frame_rms (take frame_size (drop i c))))
                                   (fmul (Fin (1 - alpha)) (mean_rms s))"
    by blast
  have sm: "smoothed_rms s' = fadd (fmul (Fin alpha_smooth) (frame_rms (take frame_size (drop i c))))
                               (fmul (Fin (1 - alpha_smooth)) (smoothed_rms s))"
    using e by blast
  have c1: "alpha_smooth \<noteq> 0" "1 - alpha_smooth \<noteq> 0"
    by (simp_all add: alpha_smooth_def)
  have c2: "alpha \<noteq> 0" "1 - alpha \<noteq> 0"
    using al by (auto simp: alpha_mean_rise_def alpha_mean_fall_def)
  have "\<not> is_finite (smoothed_rms s) \<longrightarrow> \<not> is_finite (smoothed_rms s')"
    unfolding sm by (intro impI nf_fadd_r nf_fmul_const c1)
  moreover have "\<not> is_finite (mean_rms s) \<longrightarrow> \<not> is_finite (mean_rms s')"
    unfolding m by (intro impI nf_fadd_r nf_fmul_const c2)
  moreover have "\<not> is_finite (frame_rms (take frame_size (drop i c)))
              \<longrightarrow> \<not> is_finite (smoothed_rms s') \<and> \<not> is_finite (mean_rms s')"
    unfolding sm m by (intro impI conjI nf_fadd_l nf_fmul_const c1 c2)
  moreover have "smoothed_rms s = NaN \<longrightarrow> os' = os \<and> smoothed_rms s' = NaN"
  proof
    assume n: "smoothed_rms s = NaN"
    then have "smoothed_rms s' = NaN" by (simp add: sm)
    then show "os' = os \<and> smoothed_rms s' = NaN" using e by blast
  qed
  ultimately show ?thesis by blast
qed

lemma run_frames_total:
  "sample_rate s \<noteq> 0 \<Longrightarrow> \<exists>os' s'. run_frames c starts (os, s) = Inr (os', s')"
proof (induction starts arbitrary: os s)
  case Nil
  then show ?case by simp
next
  case (Cons i starts)
  from process_frame_total [OF Cons.prems, of c i os] obtain os1 s1
    where st: "process_frame c i (os, s) = Inr (os1, s1)" and sr: "sample_rate s1 = sample_rate s"
    by blast
  from Cons.IH [of s1 os1] sr Cons.prems
  obtain os' s' where "run_frames c starts (os1, s1) = Inr (os', s')" by auto
  then show ?case using st by simp
qed

lemma run_frames_persist:
  "run_frames c starts (os, s) = Inr (os', s') \<Longrightarrow>
     (\<not> is_finite (smoothed_rms s) \<longrightarrow> \<not> is_finite (smoothed_rms s'))
     \<and> (\<not> is_finite (mean_rms s) \<longrightarrow> \<not> is_finite (mean_rms s'))
     \<and> (smoothed_rms s = NaN \<longrightarrow> os' = os \<and> smoothed_rms s' = NaN)"
proof (induction starts arbitrary: os s)
  case Nil
  then show ?case by simp
next
  case (Cons i starts)
  from Cons.prems obtain os1 s1
    where st: "process_frame c i (os, s) = Inr (os1, s1)"
      and rest: "run_frames c starts (os1, s1) = Inr (os', s')"
    by (auto split: sum.splits)
  from step_nonfinite [OF st] Cons.IH [OF rest] show ?case by blast
qed

lemma run_frames_poisoned:
  "run_frames c starts (os, s) = Inr (os', s') \<Longrightarrow>
     \<exists>i\<in>set starts. \<exists>x\<in>set (take frame_size (drop i c)). \<not> is_finite x \<Longrightarrow>
     \<not> is_finite (smoothed_rms s') \<and> \<not> is_finite (mean_rms s')"
proof (induction starts arbitrary: os s)
  case Nil
  then show ?case by simp
next
  case (Cons i starts)
  from Cons.prems(1) obtain os1 s1
    where st: "process_frame c i (os, s) = Inr (os1, s1)"
      and rest: "run_frames c starts (os1, s1) = Inr (os', s')"
    by (auto split: sum.splits)
  show ?case
  proof (cases "\<exists>x\<in>set (take frame_size (drop i c)). \<not> is_finite x")
    case True
    then have "\<not> is_finite (frame_rms (take frame_size (drop i c)))"
      by (rule nf_frame_rms)
    with step_nonfinite [OF st]
    have "\<not> is_finite (smoothed_rms s1) \<and> \<not> is_finite (mean_rms s1)" by blast
    with run_frames_persist [OF rest] show ?thesis by blast
  next
    case False
    with Cons.prems(2)
    have "\<exists>i\<in>set starts. \<exists>x\<in>set (take frame_size (drop i c)). \<not> is_finite x" by auto
    from Cons.IH [OF rest this] show ?thesis .
  qed
qed

lemma process_chunk_cases:
  assumes "process_chunk s c = Inr (os, s')"
  obtains s1 where "run_frames c (frame_starts (length c)) ([], s) = Inr (os, s1)"
    and "s' = s1\<lparr> total_samples := total_samples s1 + int (length c) \<rparr>"
  using assms by (auto simp: process_chunk_def split: sum.splits)

lemmas chunk_eval = process_chunk_def frame_starts_512 process_frame_def frame_size_def
      frame_rms_replicate_Fin frame_rms_replicate_NaN detector_init_def Let_def detect_edge_def
      update_baseline_def detector_consts

lemma NaN_chunk_init:
  "process_chunk (detector_init 44100 (1 / 20)) (replicate 512 NaN) = Inr ([], poisoned_example)"
  by (simp add: chunk_eval poisoned_example_def)

lemma zero_chunk_init:
  "process_chunk (detector_init 44100 (1 / 20)) (replicate 512 (Fin 0)) = Inr ([], silent_example)"
  by (simp add: chunk_eval silent_example_def)

lemma loud_after_NaN:
  "onsets_of (process_chunk poisoned_example (replicate 512 (Fin 1))) = Inr []"
  by (simp add: chunk_eval poisoned_example_def onsets_of_def)

lemma loud_after_zero:
  "onsets_of (process_chunk silent_example (replicate 512 (Fin 1))) = Inr [512 / 44100]"
  by (simp add: chunk_eval silent_example_def onsets_of_def)

subsection \<open>Splitting a stream into chunks\<close>

text \<open>
  Claim C1, as stated, at a stream of 512 samples of value 1.0 split into two chunks of 256:
  fed whole, the stream holds one frame and yields an onset at time 0; fed in two chunks,
  neither chunk holds a frame and no onset is returned. \<open>process_chunk\<close> takes its frames
  inside the chunk it is given and keeps no samples for the next call.
\<close>

theorem chunk_split_loses_frame_counterexample:
  "onsets_of (process_chunk (detector_init 44100 (1 / 20))
                (concat [replicate 256 (Fin 1), replicate 256 (Fin 1)])) = Inr [0]
   \<and> onsets_of (process_chunks (detector_init 44100 (1 / 20))
                [replicate 256 (Fin 1), replicate 256 (Fin 1)]) = Inr []"
proof -
  have "concat [replicate 256 (Fin 1), replicate 256 (Fin 1)] = replicate 512 (Fin (1::real))"
    by (simp add: replicate_add [symmetric])
  then show ?thesis
    by (simp add: loud_frame_init onsets_of_def process_chunk_short)
qed

text \<open>
  Claim C1, amended: feeding a chunk \<open>c\<close> and then further chunks \<open>cs\<close> to \<open>process_chunk\<close>
  gives the same onsets and the same detector as feeding the whole stream at once, provided
  the split loses no frame: every later chunk is shorter than one frame (512 samples) and the
  whole stream has as many frames as \<open>c\<close> alone. The sample counter continues across the
  chunks.
\<close>

theorem chunk_split_without_lost_frame:
  assumes "\<forall>x\<in>set cs. length x < 512"
    and "frame_count_of (length c + length (concat cs)) = frame_count_of (length c)"
  shows "process_chunks s (c # cs) = process_chunk s (c @ concat cs)"
proof -
  have fs: "frame_starts (length (c @ concat cs)) = frame_starts (length c)"
    using assms(2) by (simp add: frame_starts_def)
  have whole: "process_chunk s (c @ concat cs)
     = (case run_frames c (frame_starts (length c)) ([], s) of
          Inl e \<Rightarrow> Inl e
        | Inr (onsets, s') \<Rightarrow>
            Inr (onsets, s'\<lparr> total_samples :=
                   total_samples s' + int (length c + length (concat cs)) \<rparr>))"
    unfolding process_chunk_def fs run_frames_append_chunk
    by (simp split: sum.splits)
  show ?thesis
    unfolding whole
    by (simp add: process_chunk_def process_chunks_short [OF assms(1)] add.assoc
        split: sum.splits prod.splits)
qed

text \<open>
  Claim C1, amended, at a chunk of 512 samples followed by chunks of one and two samples.
\<close>

theorem chunk_split_without_lost_frame_witness:
  "process_chunks (detector_init 44100 (1 / 20)) [replicate 512 (Fin 1), [Fin 1], [Fin 1, Fin 1]]
   = process_chunk (detector_init 44100 (1 / 20))
       (replicate 512 (Fin 1) @ concat [[Fin 1], [Fin 1, Fin 1]])"
proof -
  have "\<forall>x\<in>set [[Fin 1], [Fin 1, Fin (1::real)]]. length x < 512" by simp
  moreover have "frame_count_of (length (replicate 512 (Fin (1::real)))
                   + length (concat [[Fin 1], [Fin 1, Fin (1::real)]]))
                 = frame_count_of (length (replicate 512 (Fin (1::real))))"
    by (simp add: frame_count_of_def frame_size_def hop_size_def)
  ultimately show ?thesis by (rule chunk_split_without_lost_frame)
qed

subsection \<open>Non-finite samples\<close>

text \<open>
  Claim C3, as stated, at one frame of NaN samples fed to the initial detector: no error is
  raised, but \<open>smoothed_rms\<close> and \<open>mean_rms\<close> become NaN, where a frame of zeros leaves them
  at 0; and a following frame of samples of value 1.0 yields no onset after the NaN frame but
  an onset at sample 512 after the frame of zeros.
\<close>

theorem nonfinite_samples_not_zeroed_counterexample:
  "process_chunk (detector_init 44100 (1 / 20)) (replicate 512 NaN) = Inr ([], poisoned_example)
   \<and> process_chunk (detector_init 44100 (1 / 20)) (zero_nonfinite (replicate 512 NaN))
       = Inr ([], silent_example)
   \<and> \<not> is_finite (smoothed_rms poisoned_example)
   \<and> \<not> is_finite (mean_rms poisoned_example)
   \<and> onsets_of (process_chunk poisoned_example (replicate 512 (Fin 1))) = Inr []
   \<and> onsets_of (process_chunk silent_example (replicate 512 (Fin 1))) = Inr [512 / 44100]"
proof -
  have z: "zero_nonfinite (replicate 512 NaN) = replicate 512 (Fin 0)"
    by (simp add: zero_nonfinite_def is_finite_def)
  have "\<not> is_finite (smoothed_rms poisoned_example)" "\<not> is_finite (mean_rms poisoned_example)"
    by (simp_all add: poisoned_example_def is_finite_def)
  then show ?thesis
    using NaN_chunk_init zero_chunk_init loud_after_NaN loud_after_zero by (simp add: z)
qed

text \<open>
  Claim C3, amended: \<open>process_chunk\<close> raises no error on any samples, finite or not, when the
  sample rate is not 0, but it does not treat non-finite samples as zero. If a frame of the
  chunk holds a non-finite sample, \<open>smoothed_rms\<close> and \<open>mean_rms\<close> are non-finite after the
  chunk; each of the two stays non-finite over every later chunk once it is; and a detector
  whose \<open>smoothed_rms\<close> is NaN returns no onsets and keeps it NaN.
\<close>

theorem nonfinite_samples_poison_estimates:
  "(sample_rate s \<noteq> 0 \<longrightarrow> (\<exists>os' s'. process_chunk s c = Inr (os', s')))
   \<and> (process_chunk s c = Inr (os, s1)
        \<and> (\<exists>i\<in>set (frame_starts (length c)).
              \<exists>x\<in>set (take frame_size (drop i c)). \<not> is_finite x)
       \<longrightarrow> \<not> is_finite (smoothed_rms s1) \<and> \<not> is_finite (mean_rms s1))
   \<and> (process_chunk s c = Inr (os, s1) \<and> \<not> is_finite (smoothed_rms s)
       \<longrightarrow> \<not> is_finite (smoothed_rms s1))
   \<and> (process_chunk s c = Inr (os, s1) \<and> \<not> is_finite (mean_rms s)
       \<longrightarrow> \<not> is_finite (mean_rms s1))
   \<and> (process_chunk s c = Inr (os, s1) \<and> smoothed_rms s = NaN
       \<longrightarrow> os = [] \<and> smoothed_rms s1 = NaN)"
proof (intro conjI impI)
  assume "sample_rate s \<noteq> 0"
  from run_frames_total [OF this, of c "frame_starts (length c)" "[]"]
  show "\<exists>os' s'. process_chunk s c = Inr (os', s')"
    by (auto simp: process_chunk_def)
next
  assume a: "process_chunk s c = Inr (os, s1)
        \<and> (\<exists>i\<in>set (frame_starts (length c)).
              \<exists>x\<in>set (take frame_size (drop i c)). \<not> is_finite x)"
  then obtain s0 where r: "run_frames c (frame_starts (length c)) ([], s) = Inr (os, s0)"
    and s1: "s1 = s0\<lparr> total_samples := total_samples s0 + int (length c) \<rparr>"
    by (auto elim: process_chunk_cases)
  from run_frames_poisoned [OF r] a
  have *: "\<not> is_finite (smoothed_rms s0) \<and> \<not> is_finite (mean_rms s0)" by blast
  from * show "\<not> is_finite (smoothed_rms s1)" by (simp add: s1)
  from * show "\<not> is_finite (mean_rms s1)" by (simp add: s1)
next
  assume a: "process_chunk s c = Inr (os, s1) \<and> \<not> is_finite (smoothed_rms s)"
  then obtain s0 where r: "run_frames c (frame_starts (length c)) ([], s) = Inr (os, s0)"
    and s1: "s1 = s0\<lparr> total_samples := total_samples s0 + int (length c) \<rparr>"
    by (auto elim: process_chunk_cases)
  from run_frames_persist [OF r] a show "\<not> is_finite (smoothed_rms s1)" by (simp add: s1)
next
  assume a: "process_chunk s c = Inr (os, s1) \<and> \<not> is_finite (mean_rms s)"
  then obtain s0 where r: "run_frames c (frame_starts (length c)) ([], s) = Inr (os, s0)"
    and s1: "s1 = s0\<lparr> total_samples := total_samples s0 + int (length c) \<rparr>"
    by (auto elim: process_chunk_cases)
  from run_frames_persist [OF r] a show "\<not> is_finite (mean_rms s1)" by (simp add: s1)
next
  assume a: "process_chunk s c = Inr (os, s1) \<and> smoothed_rms s = NaN"
  then obtain s0 where r: "run_frames c (frame_starts (length c)) ([], s) = Inr (os, s0)"
    and s1: "s1 = s0\<lparr> total_samples := total_samples s0 + int (length c) \<rparr>"
    by (auto elim: process_chunk_cases)
  from run_frames_persist [OF r] a have *: "os = [] \<and> smoothed_rms s0 = NaN" by blast
  from * show "os = []" by simp
  from * show "smoothed_rms s1 = NaN" by (simp add: s1)
qed

text \<open>
  Claim C3, amended, at the initial detector and one frame of NaN samples, and then at the
  detector this leaves and one frame of samples of value 1.0.
\<close>

theorem nonfinite_samples_poison_estimates_witness:
  "(\<exists>os' s'. process_chunk (detector_init 44100 (1 / 20)) (replicate 512 NaN) = Inr (os', s'))
   \<and> \<not> is_finite (smoothed_rms poisoned_example)
   \<and> \<not> is_finite (mean_rms poisoned_example)
   \<and> (\<exists>s'. process_chunk poisoned_example (replicate 512 (Fin 1)) = Inr ([], s')
           \<and> smoothed_rms s' = NaN \<and> \<not> is_finite (mean_rms s'))"
proof -
  let ?s0 = "detector_init 44100 (1 / 20)"
  have sr: "sample_rate ?s0 \<noteq> 0" "sample_rate poisoned_example \<noteq> 0"
    by (simp_all add: detector_init_def poisoned_example_def)
  have bad: "\<exists>i\<in>set (frame_starts (length (replicate 512 NaN))).
              \<exists>x\<in>set (take frame_size (drop i (replicate 512 NaN))). \<not> is_finite x"
    by (simp add: frame_starts_512 frame_size_def is_finite_def)
  have p: "smoothed_rms poisoned_example = NaN" "\<not> is_finite (mean_rms poisoned_example)"
    by (simp_all add: poisoned_example_def is_finite_def)
  note a = nonfinite_samples_poison_estimates [of ?s0 "replicate 512 NaN" "[]" poisoned_example]
  have 1: "\<exists>os' s'. process_chunk ?s0 (replicate 512 NaN) = Inr (os', s')"
    by (rule mp [OF a [THEN conjunct1] sr(1)])
  have 2: "\<not> is_finite (smoothed_rms poisoned_example) \<and> \<not> is_finite (mean_rms poisoned_example)"
    by (rule mp [OF a [THEN conjunct2, THEN conjunct1]]) (intro conjI NaN_chunk_init bad)
  have "\<exists>os' s'. process_chunk poisoned_example (replicate 512 (Fin 1)) = Inr (os', s')"
    by (rule mp [OF nonfinite_samples_poison_estimates [of poisoned_example "replicate 512 (Fin 1)", THEN conjunct1] sr(2)])
  then obtain os' s'
    where r: "process_chunk poisoned_example (replicate 512 (Fin 1)) = Inr (os', s')"
    by (elim exE)
  note b = nonfinite_samples_poison_estimates [of poisoned_example "replicate 512 (Fin 1)" os' s']
  have m: "\<not> is_finite (mean_rms s')"
    by (rule mp [OF b [THEN conjunct2, THEN conjunct2, THEN conjunct2, THEN conjunct1]])
       (intro conjI r p(2))
  have n: "os' = [] \<and> smoothed_rms s' = NaN"
    by (rule mp [OF b [THEN conjunct2, THEN conjunct2, THEN conjunct2, THEN conjunct2]])
       (intro conjI r p(1))
  have 3: "\<exists>s'. process_chunk poisoned_example (replicate 512 (Fin 1)) = Inr ([], s')
           \<and> smoothed_rms s' = NaN \<and> \<not> is_finite (mean_rms s')"
    using r m n by (intro exI [of _ s']) simp
  from 1 2 3 show ?thesis by (intro conjI) simp_all
qed

section \<open>Properties of the spectral classifier\<close>

subsection \<open>Auxiliary facts\<close>

lemma np_max_abs_ge: "x \<in> set w \<Longrightarrow> \<bar>x\<bar> \<le> np_max_abs w"
  unfolding np_max_abs_def by (induction w) auto

lemma extract_features_decay:
  "extract_window_features mfcc centroid w rate = Inr (Some f) \<Longrightarrow>
     feat_energy_decay f = window_decay w \<and> feat_mfcc f = mfcc w rate"
  by (auto simp: extract_window_features_def window_decay_def Let_def split: if_splits)

lemma cosine_zero_left: "np_norm a < 1 / 10 ^ 10 \<Longrightarrow> cosine_similarity a b = Inr 0"
  by (simp add: cosine_similarity_def Let_def)

lemma cosine_zero_right: "np_norm b < 1 / 10 ^ 10 \<Longrightarrow> cosine_similarity a b = Inr 0"
  by (simp add: cosine_similarity_def Let_def)

lemma classify_window_unavailable:
  "onset_sample + 2048 > int (length audio) \<or> onset_sample < 0 \<Longrightarrow>
     classify_onset mfcc centroid audio onset_sample rate cal = Inr ''guitar''"
  by (auto simp: classify_onset_def WINDOW_SAMPLES_def Let_def)

lemma window_nonempty:
  "\<not> (onset_sample + 2048 > int (length audio) \<or> onset_sample < 0) \<Longrightarrow>
     take 2048 (drop (nat onset_sample) audio) \<noteq> []"
  by auto

lemma classify_silent:
  assumes "np_max_abs (take 2048 (drop (nat onset_sample) audio)) < 1 / 10 ^ 6"
  shows "classify_onset mfcc centroid audio onset_sample rate cal = Inr ''guitar''"
proof (cases "onset_sample + 2048 > int (length audio) \<or> onset_sample < 0")
  case True
  then show ?thesis by (rule classify_window_unavailable)
next
  case False
  from window_nonempty [OF this] assms
  have "extract_window_features mfcc centroid (take 2048 (drop (nat onset_sample) audio)) rate
        = Inr None"
    by (simp add: extract_window_features_def)
  with False show ?thesis
    by (simp add: classify_onset_def WINDOW_SAMPLES_def Let_def)
qed

lemma extract_features_total:
  "w \<noteq> [] \<Longrightarrow> \<exists>r. extract_window_features mfcc centroid w rate = Inr r"
  by (simp add: extract_window_features_def Let_def)

lemma classify_profile_missing:
  assumes "py_not (metronome cal) \<or> py_not (guitar cal)"
  shows "classify_onset mfcc centroid audio onset_sample rate cal = Inr ''guitar''"
proof (cases "onset_sample + 2048 > int (length audio) \<or> onset_sample < 0")
  case True
  then show ?thesis by (rule classify_window_unavailable)
next
  case False
  from extract_features_total [OF window_nonempty [OF this]]
  obtain r where "extract_window_features mfcc centroid
                    (take 2048 (drop (nat onset_sample) audio)) rate = Inr r" by blast
  with False assms show ?thesis
    by (cases r) (simp_all add: classify_onset_def WINDOW_SAMPLES_def Let_def)
qed

lemma classify_zero_similarity:
  assumes avail: "\<not> (onset_sample + 2048 > int (length audio) \<or> onset_sample < 0)"
    and loud: "\<not> np_max_abs (take 2048 (drop (nat onset_sample) audio)) < 1 / 10 ^ 6"
    and met: "metronome cal = Some mp" "mp \<noteq> empty_profile" "mfcc_mean mp = Some met_mfcc"
    and gtr: "guitar cal = Some gp" "gp \<noteq> empty_profile" "mfcc_mean gp = Some gtr_mfcc"
    and small: "np_norm (mfcc (take 2048 (drop (nat onset_sample) audio)) rate) < 1 / 10 ^ 10
                \<or> (np_norm met_mfcc < 1 / 10 ^ 10 \<and> np_norm gtr_mfcc < 1 / 10 ^ 10)"
  shows "classify_onset mfcc centroid audio onset_sample rate cal
         = Inr (if \<bar>window_decay (take 2048 (drop (nat onset_sample) audio))
                    - (case energy_decay mp of None \<Rightarrow> 1 / 2 | Some v \<Rightarrow> v)\<bar>
                   < \<bar>window_decay (take 2048 (drop (nat onset_sample) audio))
                      - (case energy_decay gp of None \<Rightarrow> 1 / 2 | Some v \<Rightarrow> v)\<bar>
                then ''click'' else ''guitar'')"
proof -
  define w where "w = take 2048 (drop (nat onset_sample) audio)"
  have ne: "w \<noteq> []" unfolding w_def using avail by (rule window_nonempty)
  with loud obtain f where f: "extract_window_features mfcc centroid w rate = Inr (Some f)"
    by (auto simp: extract_window_features_def Let_def w_def)
  note fd = extract_features_decay [OF f]
  have c1: "cosine_similarity (feat_mfcc f) met_mfcc = Inr 0"
    using small fd cosine_zero_left cosine_zero_right unfolding w_def [symmetric] by auto
  have c2: "cosine_similarity (feat_mfcc f) gtr_mfcc = Inr 0"
    using small fd cosine_zero_left cosine_zero_right unfolding w_def [symmetric] by auto
  have nn: "\<not> py_not (metronome cal)" "\<not> py_not (guitar cal)"
    using met gtr by (simp_all add: py_not_def)
  show ?thesis
    unfolding w_def [symmetric]
    using avail f c1 c2 nn met gtr fd
    by (simp add: classify_onset_def WINDOW_SAMPLES_def Let_def w_def [symmetric])
qed

lemma np_max_abs_zeros: "np_max_abs (replicate n 0) = 0"
  unfolding np_max_abs_def by (induction n) simp_all

lemma np_norm_zeros: "np_norm (replicate n 0) = 0"
  by (simp add: np_norm_def sum_list_replicate)

lemma decaying_buffer_window:
  "take 2048 (drop (nat 0) decaying_buffer) = decaying_buffer"
  "length decaying_buffer = 2048"
  by (simp_all add: decaying_buffer_def)

lemma decaying_buffer_loud: "\<not> np_max_abs decaying_buffer < 1 / 10 ^ 6"
proof -
  have "(1::real) \<in> set decaying_buffer" by (simp add: decaying_buffer_def)
  from np_max_abs_ge [OF this] show ?thesis by simp
qed

lemma decaying_buffer_decay: "window_decay decaying_buffer = 0"
  by (simp add: window_decay_def decaying_buffer_def Let_def sum_list_replicate)

lemma zero_mfcc_calibration_fields:
  "metronome zero_mfcc_calibration = Some zero_profile"
  "guitar zero_mfcc_calibration = Some (zero_profile\<lparr> energy_decay := Some (1 / 2) \<rparr>)"
  "zero_profile \<noteq> empty_profile"
  "zero_profile\<lparr> energy_decay := Some (1 / 2) \<rparr> \<noteq> empty_profile"
  "mfcc_mean zero_profile = Some (replicate 13 0)"
  "mfcc_mean (zero_profile\<lparr> energy_decay := Some (1 / 2) \<rparr>) = Some (replicate 13 0)"
  "energy_decay zero_profile = Some 0"
  by (simp_all add: zero_mfcc_calibration_def zero_profile_def empty_profile_def)

lemma classify_decaying:
  "classify_onset mfcc centroid decaying_buffer 0 rate zero_mfcc_calibration = Inr ''click''"
proof -
  have "classify_onset mfcc centroid decaying_buffer 0 rate zero_mfcc_calibration
        = Inr (if \<bar>window_decay (take 2048 (drop (nat 0) decaying_buffer))
                     - (case energy_decay zero_profile of None \<Rightarrow> 1 / 2 | Some v \<Rightarrow> v)\<bar>
                    < \<bar>window_decay (take 2048 (drop (nat 0) decaying_buffer))
                       - (case energy_decay (zero_profile\<lparr> energy_decay := Some (1 / 2) \<rparr>) of
                            None \<Rightarrow> 1 / 2 | Some v \<Rightarrow> v)\<bar>
                 then ''click'' else ''guitar'')"
    using decaying_buffer_loud
    by (intro classify_zero_similarity [where met_mfcc = "replicate 13 0"
          and gtr_mfcc = "replicate 13 0"])
       (simp_all add: zero_mfcc_calibration_fields decaying_buffer_window np_norm_zeros)
  then show ?thesis
    by (simp add: decaying_buffer_window decaying_buffer_decay zero_mfcc_calibration_fields)
qed

subsection \<open>The default label\<close>

text \<open>
  Claim C7, as stated, at a window of 1024 samples of value 1.0 followed by 1024 zeros and a
  calibration whose two profiles have all-zero MFCC vectors and energy decays 0 (metronome)
  and 0.5 (guitar): every MFCC norm of the profiles is below 1e-10, and so is the onset's
  with the first stand-in for the MFCC routine, yet the label is \<open>click\<close>. A norm below
  1e-10 makes \<open>_cosine_similarity\<close> return 0, after which the decay distances decide.
\<close>

theorem zero_norm_classified_click_counterexample:
  "np_norm (zero_mfcc decaying_buffer 44100) < 1 / 10 ^ 10
   \<and> np_norm (replicate 13 0) < 1 / 10 ^ 10
   \<and> mfcc_mean (the (metronome zero_mfcc_calibration)) = Some (replicate 13 0)
   \<and> mfcc_mean (the (guitar zero_mfcc_calibration)) = Some (replicate 13 0)
   \<and> classify_onset zero_mfcc zero_centroid decaying_buffer 0 44100 zero_mfcc_calibration
       = Inr ''click''
   \<and> classify_onset ones_mfcc zero_centroid decaying_buffer 0 44100 zero_mfcc_calibration
       = Inr ''click''"
  by (simp add: classify_decaying zero_mfcc_def np_norm_zeros zero_mfcc_calibration_fields)

text \<open>
  Claim C7, amended: \<open>classify_onset\<close> returns \<open>guitar\<close> whenever the metronome or the guitar
  profile is missing (absent or an empty dictionary), the 2048-sample window overruns the
  buffer or the onset sample index is negative, or the window is silent (max |sample| below
  1e-6). When both profiles are present with their MFCC vectors and the onset's MFCC norm, or
  both profiles' MFCC norms, are below 1e-10, both similarities are 0 and the label is
  \<open>click\<close> if the window's energy decay is strictly nearer to the metronome profile's decay
  than to the guitar profile's (0.5 where a profile has none), and \<open>guitar\<close> otherwise.
\<close>

theorem classify_onset_defaults:
  "(py_not (metronome cal) \<or> py_not (guitar cal)
      \<longrightarrow> classify_onset mfcc centroid audio onset_sample rate cal = Inr ''guitar'')
   \<and> (onset_sample + 2048 > int (length audio) \<or> onset_sample < 0
      \<longrightarrow> classify_onset mfcc centroid audio onset_sample rate cal = Inr ''guitar'')
   \<and> (np_max_abs (take 2048 (drop (nat onset_sample) audio)) < 1 / 10 ^ 6
      \<longrightarrow> classify_onset mfcc centroid audio onset_sample rate cal = Inr ''guitar'')
   \<and> (\<not> (onset_sample + 2048 > int (length audio) \<or> onset_sample < 0)
       \<and> \<not> np_max_abs (take 2048 (drop (nat onset_sample) audio)) < 1 / 10 ^ 6
       \<and> metronome cal = Some mp \<and> mp \<noteq> empty_profile \<and> mfcc_mean mp = Some met_mfcc
       \<and> guitar cal = Some gp \<and> gp \<noteq> empty_profile \<and> mfcc_mean gp = Some gtr_mfcc
       \<and> (np_norm (mfcc (take 2048 (drop (nat onset_sample) audio)) rate) < 1 / 10 ^ 10
           \<or> (np_norm met_mfcc < 1 / 10 ^ 10 \<and> np_norm gtr_mfcc < 1 / 10 ^ 10))
      \<longrightarrow> classify_onset mfcc centroid audio onset_sample rate cal
          = Inr (if \<bar>window_decay (take 2048 (drop (nat onset_sample) audio))
                     - (case energy_decay mp of None \<Rightarrow> 1 / 2 | Some v \<Rightarrow> v)\<bar>
                    < \<bar>window_decay (take 2048 (drop (nat onset_sample) audio))
                       - (case energy_decay gp of None \<Rightarrow> 1 / 2 | Some v \<Rightarrow> v)\<bar>
                 then ''click'' else ''guitar''))"
proof (intro conjI impI)
  assume "py_not (metronome cal) \<or> py_not (guitar cal)"
  then show "classify_onset mfcc centroid audio onset_sample rate cal = Inr ''guitar''"
    by (rule classify_profile_missing)
next
  assume "onset_sample + 2048 > int (length audio) \<or> onset_sample < 0"
  then show "classify_onset mfcc centroid audio onset_sample rate cal = Inr ''guitar''"
    by (rule classify_window_unavailable)
next
  assume "np_max_abs (take 2048 (drop (nat onset_sample) audio)) < 1 / 10 ^ 6"
  then show "classify_onset mfcc centroid audio onset_sample rate cal = Inr ''guitar''"
    by (rule classify_silent)
next
  assume a: "\<not> (onset_sample + 2048 > int (length audio) \<or> onset_sample < 0)
       \<and> \<not> np_max_abs (take 2048 (drop (nat onset_sample) audio)) < 1 / 10 ^ 6
       \<and> metronome cal = Some mp \<and> mp \<noteq> empty_profile \<and> mfcc_mean mp = Some met_mfcc
       \<and> guitar cal = Some gp \<and> gp \<noteq> empty_profile \<and> mfcc_mean gp = Some gtr_mfcc
       \<and> (np_norm (mfcc (take 2048 (drop (nat onset_sample) audio)) rate) < 1 / 10 ^ 10
           \<or> (np_norm met_mfcc < 1 / 10 ^ 10 \<and> np_norm gtr_mfcc < 1 / 10 ^ 10))"
  show "classify_onset mfcc centroid audio onset_sample rate cal
          = Inr (if \<bar>window_decay (take 2048 (drop (nat onset_sample) audio))
                     - (case energy_decay mp of None \<Rightarrow> 1 / 2 | Some v \<Rightarrow> v)\<bar>
                    < \<bar>window_decay (take 2048 (drop (nat onset_sample) audio))
                       - (case energy_decay gp of None \<Rightarrow> 1 / 2 | Some v \<Rightarrow> v)\<bar>
                 then ''click'' else ''guitar'')"
  proof (rule classify_zero_similarity)
    from a show "\<not> (onset_sample + 2048 > int (length audio) \<or> onset_sample < 0)" by blast
    from a show "\<not> np_max_abs (take 2048 (drop (nat onset_sample) audio)) < 1 / 10 ^ 6"
      by blast
    from a show "metronome cal = Some mp" by blast
    from a show "mp \<noteq> empty_profile" by blast
    from a show "mfcc_mean mp = Some met_mfcc" by blast
    from a show "guitar cal = Some gp" by blast
    from a show "gp \<noteq> empty_profile" by blast
    from a show "mfcc_mean gp = Some gtr_mfcc" by blast
    from a show "np_norm (mfcc (take 2048 (drop (nat onset_sample) audio)) rate) < 1 / 10 ^ 10
           \<or> (np_norm met_mfcc < 1 / 10 ^ 10 \<and> np_norm gtr_mfcc < 1 / 10 ^ 10)" by blast
  qed
qed

text \<open>
  Claim C7, amended, at four inputs: no metronome profile; an onset at sample 100 of a
  buffer of 2048 samples; a buffer of zeros; and the window and calibration of the
  counterexample.
\<close>

theorem classify_onset_defaults_witness:
  "classify_onset ones_mfcc zero_centroid decaying_buffer 0 44100
       \<lparr> metronome = None, guitar = Some zero_profile \<rparr> = Inr ''guitar''
   \<and> classify_onset ones_mfcc zero_centroid decaying_buffer 100 44100 zero_mfcc_calibration
       = Inr ''guitar''
   \<and> classify_onset ones_mfcc zero_centroid (replicate 2048 0) 0 44100 zero_mfcc_calibration
       = Inr ''guitar''
   \<and> classify_onset ones_mfcc zero_centroid decaying_buffer 0 44100 zero_mfcc_calibration
       = Inr ''click''"
proof -
  have 1: "classify_onset ones_mfcc zero_centroid decaying_buffer 0 44100
       \<lparr> metronome = None, guitar = Some zero_profile \<rparr> = Inr ''guitar''"
    by (rule mp [OF classify_onset_defaults [THEN conjunct1]]) (simp add: py_not_def)
  have 2: "classify_onset ones_mfcc zero_centroid decaying_buffer 100 44100 zero_mfcc_calibration
       = Inr ''guitar''"
    by (rule mp [OF classify_onset_defaults [THEN conjunct2, THEN conjunct1]]) (simp add: decaying_buffer_window)
  have 3: "classify_onset ones_mfcc zero_centroid (replicate 2048 0) 0 44100 zero_mfcc_calibration
       = Inr ''guitar''"
    by (rule mp [OF classify_onset_defaults [THEN conjunct2, THEN conjunct2, THEN conjunct1]])
       (simp add: np_max_abs_zeros)
  have "classify_onset ones_mfcc zero_centroid decaying_buffer 0 44100 zero_mfcc_calibration
        = Inr (if \<bar>window_decay (take 2048 (drop (nat 0) decaying_buffer))
                     - (case energy_decay zero_profile of None \<Rightarrow> 1 / 2 | Some v \<Rightarrow> v)\<bar>
                    < \<bar>window_decay (take 2048 (drop (nat 0) decaying_buffer))
                       - (case energy_decay (zero_profile\<lparr> energy_decay := Some (1 / 2) \<rparr>) of
                            None \<Rightarrow> 1 / 2 | Some v \<Rightarrow> v)\<bar>
                 then ''click'' else ''guitar'')"
    using decaying_buffer_loud
    by (intro mp [OF classify_onset_defaults [where met_mfcc = "replicate 13 0" and gtr_mfcc = "replicate 13 0",
                        THEN conjunct2, THEN conjunct2, THEN conjunct2]])
       (simp add: zero_mfcc_calibration_fields decaying_buffer_window np_norm_zeros)
  then have 4: "classify_onset ones_mfcc zero_centroid decaying_buffer 0 44100
                  zero_mfcc_calibration = Inr ''click''"
    by (simp add: decaying_buffer_window decaying_buffer_decay zero_mfcc_calibration_fields)
  from 1 2 3 4 show ?thesis by (intro conjI)
qed

end
